theory Spec2Isabelle
  imports Main "HOL-Library.Monad_Syntax"
begin

section \<open>Python values, errors and XML elements\<close>

text \<open>
  The exceptions the model layer raises or lets escape.  \<open>ValidationError\<close> and its
  subclass \<open>EnableAutoDiscountsValidationError\<close> come from the package's
  \<^verbatim>\<open>exceptions\<close> module, \<open>ParseError\<close> likewise; the others are Python's own
  (\<open>TypeError\<close> for a missing required keyword, \<open>ValueError\<close> from
  \<^verbatim>\<open>datetime.strptime\<close>, \<open>AttributeError\<close> for a method looked up on a value
  that has none, \<open>IndexError\<close> for \<^verbatim>\<open>el[0]\<close> on a childless element).
\<close>

datatype error =
    ValidationError string
  | EnableAutoDiscountsValidationError string
  | ParseError string
  | TypeError string
  | ValueError
  | AttributeError string
  | IndexError

text \<open>
  An element of \<^verbatim>\<open>xml.etree.ElementTree\<close>: tag, attribute dictionary, text and
  children (the tail is never read by the models).
\<close>

datatype xml = Element (tag: string) (attrib: "(string \<times> string) list")
  (el_text: "string option") (children: "xml list")

definition XMLElement :: "string \<Rightarrow> (string \<times> string) list \<Rightarrow> xml" where
  "XMLElement t a = Element t a None []"

text \<open>\<^verbatim>\<open>parent.append(child)\<close>, returning the parent as it is afterwards.\<close>

definition append_child :: "xml \<Rightarrow> xml \<Rightarrow> xml" where
  "append_child parent child =
     Element (tag parent) (attrib parent) (el_text parent) (children parent @ [child])"

text \<open>\<^verbatim>\<open>el.attrib.get(key)\<close>.\<close>

definition attrib_get :: "xml \<Rightarrow> string \<Rightarrow> string option" where
  "attrib_get el k = map_of (attrib el) k"

text \<open>Python truthiness of a value that is \<^verbatim>\<open>None\<close> or a \<^verbatim>\<open>str\<close>.\<close>

fun truthy :: "string option \<Rightarrow> bool" where
  "truthy None = False"
| "truthy (Some s) = (s \<noteq> [])"

section \<open>Dates: \<^verbatim>\<open>datetime.strptime\<close> and \<^verbatim>\<open>strftime\<close> for the two formats of feed.py\<close>

record datetime =
  year :: nat
  month :: nat
  day :: nat
  hour :: nat
  minute :: nat
  second :: nat

text \<open>
  \<^verbatim>\<open>DATE_FORMAT = "%Y-%m-%d %H:%M:%S"\<close> and \<^verbatim>\<open>ALT_DATE_FORMAT = "%Y-%m-%d %H:%M"\<close>.
\<close>

datatype dt_format = DATE_FORMAT | ALT_DATE_FORMAT

definition digits :: string where
  "digits = ''0123456789''"

definition is_digit :: "char \<Rightarrow> bool" where
  "is_digit c \<longleftrightarrow> c \<in> set digits"

fun index_of :: "char \<Rightarrow> string \<Rightarrow> nat" where
  "index_of c [] = 0"
| "index_of c (x # xs) = (if c = x then 0 else Suc (index_of c xs))"

definition digit_val :: "char \<Rightarrow> nat" where
  "digit_val c = index_of c digits"

definition digit_chr :: "nat \<Rightarrow> char" where
  "digit_chr n = digits ! (n mod 10)"

definition num_val :: "string \<Rightarrow> nat" where
  "num_val ds = foldl (\<lambda>a c. 10 * a + digit_val c) 0 ds"

text \<open>The characters \<^verbatim>\<open>\s\<close> matches, within ASCII: space, tab, LF, VT, FF, CR.\<close>

definition is_space :: "char \<Rightarrow> bool" where
  "is_space c \<longleftrightarrow> c \<in> set [CHR '' '', CHR 0x09, CHR 0x0A, CHR 0x0B, CHR 0x0C, CHR 0x0D]"

text \<open>
  A numeric field of the format is a run of digits that the next literal of the format
  (or the end of the string) delimits: \<open>p_num lo hi n m s\<close> reads a run of \<open>lo\<close> to
  \<open>hi\<close> digits whose value lies in \<open>n..m\<close> and returns the value and the rest.
\<close>

definition p_num :: "nat \<Rightarrow> nat \<Rightarrow> nat \<Rightarrow> nat \<Rightarrow> string \<Rightarrow> (nat \<times> string) option" where
  "p_num lo hi n m s =
     (let ds = takeWhile is_digit s; v = num_val ds in
      if lo \<le> length ds \<and> length ds \<le> hi \<and> n \<le> v \<and> v \<le> m
      then Some (v, dropWhile is_digit s) else None)"

definition p_lit :: "char \<Rightarrow> string \<Rightarrow> string option" where
  "p_lit c s = (case s of [] \<Rightarrow> None | x # r \<Rightarrow> if x = c then Some r else None)"

text \<open>A blank of the format stands for one or more whitespace characters.\<close>

definition p_ws :: "string \<Rightarrow> string option" where
  "p_ws s = (case s of [] \<Rightarrow> None
             | x # r \<Rightarrow> if is_space x then Some (dropWhile is_space r) else None)"

text \<open>\<^verbatim>\<open>%d\<close> also accepts a single digit after one space.\<close>

definition p_day :: "string \<Rightarrow> (nat \<times> string) option" where
  "p_day s = (case s of [] \<Rightarrow> None
              | x # r \<Rightarrow> if x = CHR '' '' then p_num 1 1 1 9 r else p_num 1 2 1 31 s)"

definition leap_year :: "nat \<Rightarrow> bool" where
  "leap_year y \<longleftrightarrow> y mod 4 = 0 \<and> (y mod 100 \<noteq> 0 \<or> y mod 400 = 0)"

definition days_in_month :: "nat \<Rightarrow> nat \<Rightarrow> nat" where
  "days_in_month y m =
     (if m = 2 then (if leap_year y then 29 else 28)
      else if m \<in> {4, 6, 9, 11} then 30 else 31)"

text \<open>The values a \<^verbatim>\<open>datetime\<close> object can hold (years 1 to 9999).\<close>

definition valid_datetime :: "datetime \<Rightarrow> bool" where
  "valid_datetime t \<longleftrightarrow>
     1 \<le> year t \<and> year t \<le> 9999 \<and> 1 \<le> month t \<and> month t \<le> 12 \<and>
     1 \<le> day t \<and> day t \<le> days_in_month (year t) (month t) \<and>
     hour t < 24 \<and> minute t < 60 \<and> second t < 60"

text \<open>The part both formats share: \<^verbatim>\<open>%Y-%m-%d %H:%M\<close>, returning what is left.\<close>

definition parse_ymdhm :: "string \<Rightarrow> (datetime \<times> string) option" where
  "parse_ymdhm s = do {
     (y, s1) \<leftarrow> p_num 4 4 0 9999 s;
     s2 \<leftarrow> p_lit CHR ''-'' s1;
     (mo, s3) \<leftarrow> p_num 1 2 1 12 s2;
     s4 \<leftarrow> p_lit CHR ''-'' s3;
     (d, s5) \<leftarrow> p_day s4;
     s6 \<leftarrow> p_ws s5;
     (h, s7) \<leftarrow> p_num 1 2 0 23 s6;
     s8 \<leftarrow> p_lit CHR '':'' s7;
     (mi, s9) \<leftarrow> p_num 1 2 0 59 s8;
     Some (\<lparr>year = y, month = mo, day = d, hour = h, minute = mi, second = 0\<rparr>, s9)
   }"

text \<open>
  \<^verbatim>\<open>datetime.strptime(s, fmt)\<close>: a \<open>ValueError\<close> when the string does not match the
  format, when text remains after the match, or when the fields are no date
  (year 0, 30 February, second 60).
\<close>

definition parse_second :: "string \<Rightarrow> nat option" where
  "parse_second r = do {
     r1 \<leftarrow> p_lit CHR '':'' r;
     (sec, r2) \<leftarrow> p_num 1 2 0 61 r1;
     if r2 = [] then Some sec else None
   }"

definition strptime :: "string \<Rightarrow> dt_format \<Rightarrow> error + datetime" where
  "strptime s fmt =
     (case parse_ymdhm s of
        None \<Rightarrow> Inl ValueError
      | Some (t, r) \<Rightarrow>
          (case fmt of
             ALT_DATE_FORMAT \<Rightarrow>
               (if r = [] \<and> valid_datetime t then Inr t else Inl ValueError)
           | DATE_FORMAT \<Rightarrow>
               (case parse_second r of
                  None \<Rightarrow> Inl ValueError
                | Some sec \<Rightarrow>
                    (if valid_datetime (t\<lparr>second := sec\<rparr>)
                     then Inr (t\<lparr>second := sec\<rparr>) else Inl ValueError))))"

definition pad2 :: "nat \<Rightarrow> string" where
  "pad2 n = [digit_chr (n div 10), digit_chr n]"

definition pad4 :: "nat \<Rightarrow> string" where
  "pad4 n = [digit_chr (n div 1000), digit_chr (n div 100), digit_chr (n div 10), digit_chr n]"

text \<open>\<^verbatim>\<open>t.strftime(fmt)\<close>, every field zero-padded to its width.\<close>

definition strftime :: "datetime \<Rightarrow> dt_format \<Rightarrow> string" where
  "strftime t fmt =
     pad4 (year t) @ ''-'' @ pad2 (month t) @ ''-'' @ pad2 (day t) @ '' '' @
     pad2 (hour t) @ '':'' @ pad2 (minute t) @
     (case fmt of DATE_FORMAT \<Rightarrow> '':'' @ pad2 (second t) | ALT_DATE_FORMAT \<Rightarrow> [])"

subsection \<open>Formatting and parsing agree\<close>

lemma mod10_cases:
  "n mod 10 = 0 \<or> n mod 10 = 1 \<or> n mod 10 = 2 \<or> n mod 10 = 3 \<or> n mod 10 = 4 \<or>
   n mod 10 = 5 \<or> n mod 10 = 6 \<or> n mod 10 = 7 \<or> n mod 10 = 8 \<or> n mod 10 = (9::nat)"
  by presburger

lemma is_digit_digit_chr [simp]: "is_digit (digit_chr n)"
  using mod10_cases [of n] unfolding is_digit_def digit_chr_def digits_def
  by (elim disjE) simp_all

lemma digit_val_digit_chr [simp]: "digit_val (digit_chr n) = n mod 10"
  using mod10_cases [of n] unfolding digit_val_def digit_chr_def digits_def
  by (elim disjE) simp_all

lemma not_space_digit_chr [simp]: "\<not> is_space (digit_chr n)"
  using mod10_cases [of n] unfolding is_space_def digit_chr_def digits_def
  by (elim disjE) simp_all

lemma not_digit_sep [simp]:
  "\<not> is_digit CHR ''-''" "\<not> is_digit CHR '':''" "\<not> is_digit CHR '' ''"
  by (simp_all add: is_digit_def digits_def)

lemma digit_chr_neq_space [simp]: "digit_chr n \<noteq> CHR '' ''"
  using is_digit_digit_chr [of n] not_digit_sep(3) by metis

lemma dec4_aux:
  fixes n q1 q2 q3 r0 r1 r2 :: nat
  assumes "q2 = 10 * q3 + r2" "q1 = 10 * q2 + r1" "n = 10 * q1 + r0"
  shows "10 * (10 * (10 * q3 + r2) + r1) + r0 = n"
  using assms by simp

lemma dec4:
  fixes n :: nat
  assumes "n < 10000"
  shows "10 * (10 * (10 * (n div 1000 mod 10) + n div 100 mod 10) + n div 10 mod 10) + n mod 10 = n"
proof -
  have a: "n div 1000 mod 10 = n div 1000" using assms by simp
  have b1: "n div 1000 = n div 100 div 10" using div_mult2_eq[of n 100 10] by simp
  have c1: "n div 100 = n div 10 div 10" using div_mult2_eq[of n 10 10] by simp
  have b: "n div 100 = 10 * (n div 1000) + n div 100 mod 10"
    unfolding b1 by simp
  have c: "n div 10 = 10 * (n div 100) + n div 10 mod 10"
    unfolding c1 by simp
  have d: "n = 10 * (n div 10) + n mod 10" by simp
  show ?thesis unfolding a by (rule dec4_aux [OF b c d])
qed

lemma num_val_pad4: "n < 10000 \<Longrightarrow> num_val (pad4 n) = n"
  unfolding num_val_def pad4_def using dec4[of n] by simp

lemma num_val_pad2: "n < 100 \<Longrightarrow> num_val (pad2 n) = n"
  unfolding num_val_def pad2_def by simp

lemma p_num_pad2:
  assumes "n < 100" "lo \<le> n" "n \<le> hi" "r = [] \<or> \<not> is_digit (hd r)" "a \<le> 2" "2 \<le> b"
  shows "p_num a b lo hi (pad2 n @ r) = Some (n, r)"
proof -
  have tw: "takeWhile is_digit (pad2 n @ r) = pad2 n" and dw: "dropWhile is_digit (pad2 n @ r) = r"
    using assms(4) by (cases r; simp add: pad2_def)+
  have len: "length (pad2 n) = 2" by (simp add: pad2_def)
  show ?thesis
    unfolding p_num_def tw dw using assms(1-3,5,6) by (simp add: num_val_pad2 Let_def len)
qed

lemma p_num_pad4:
  assumes "n < 10000" "r = [] \<or> \<not> is_digit (hd r)"
  shows "p_num 4 4 0 9999 (pad4 n @ r) = Some (n, r)"
proof -
  have tw: "takeWhile is_digit (pad4 n @ r) = pad4 n" and dw: "dropWhile is_digit (pad4 n @ r) = r"
    using assms(2) by (cases r; simp add: pad4_def)+
  have len: "length (pad4 n) = 4" by (simp add: pad4_def)
  show ?thesis
    unfolding p_num_def tw dw using assms(1) by (simp add: num_val_pad4 Let_def len)
qed

lemma p_day_pad2:
  assumes "1 \<le> n" "n \<le> 31" "r = [] \<or> \<not> is_digit (hd r)"
  shows "p_day (pad2 n @ r) = Some (n, r)"
proof -
  have "p_day (pad2 n @ r) = p_num 1 2 1 31 (pad2 n @ r)"
    by (simp add: p_day_def pad2_def)
  then show ?thesis using assms p_num_pad2 [of n 1 31 r 1 2] by simp
qed

lemma is_space_blank [simp]: "is_space CHR '' ''"
  by (simp add: is_space_def)

lemma p_ws_pad2: "p_ws (CHR '' '' # pad2 n @ r) = Some (pad2 n @ r)"
  by (simp add: p_ws_def pad2_def)

lemma days_in_month_le: "days_in_month y m \<le> 31"
  by (simp add: days_in_month_def)

lemma parse_ymdhm_pads:
  assumes "valid_datetime t" "r = [] \<or> \<not> is_digit (hd r)"
  shows "parse_ymdhm (pad4 (year t) @ CHR ''-'' # pad2 (month t) @ CHR ''-'' # pad2 (day t) @
            CHR '' '' # pad2 (hour t) @ CHR '':'' # pad2 (minute t) @ r)
         = Some (t\<lparr>second := 0\<rparr>, r)"
proof -
  from assms(1) have v: "year t < 10000" "month t < 100" "1 \<le> month t" "month t \<le> 12"
    "1 \<le> day t" "day t \<le> 31" "hour t < 100" "hour t \<le> 23" "minute t < 100" "minute t \<le> 59"
    using days_in_month_le [of "year t" "month t"] by (auto simp: valid_datetime_def)
  show ?thesis
    unfolding parse_ymdhm_def
    using v assms(2)
    by (simp add: p_num_pad4 p_num_pad2 p_day_pad2 p_ws_pad2 p_lit_def)
qed

lemma strptime_strftime:
  assumes "valid_datetime t"
  shows "strptime (strftime t DATE_FORMAT) DATE_FORMAT = Inr t"
proof -
  have s: "second t < 100" "second t \<le> 61" using assms by (auto simp: valid_datetime_def)
  have ps: "parse_second (CHR '':'' # pad2 (second t)) = Some (second t)"
    unfolding parse_second_def using p_num_pad2 [of "second t" 0 61 "[]" 1 2] s
    by (simp add: p_lit_def)
  have "parse_ymdhm (strftime t DATE_FORMAT) = Some (t\<lparr>second := 0\<rparr>, CHR '':'' # pad2 (second t))"
    unfolding strftime_def using parse_ymdhm_pads [OF assms, of "CHR '':'' # pad2 (second t)"]
    by simp
  then show ?thesis using ps assms by (simp add: strptime_def)
qed

lemma strptime_strftime_alt:
  assumes "valid_datetime t"
  shows "strptime (strftime t DATE_FORMAT) ALT_DATE_FORMAT = Inl ValueError"
proof -
  have "parse_ymdhm (strftime t DATE_FORMAT) = Some (t\<lparr>second := 0\<rparr>, CHR '':'' # pad2 (second t))"
    unfolding strftime_def using parse_ymdhm_pads [OF assms, of "CHR '':'' # pad2 (second t)"]
    by simp
  then show ?thesis by (simp add: strptime_def)
qed

lemma strptime_alt_not_primary:
  assumes "strptime s ALT_DATE_FORMAT = Inr t"
  shows "strptime s DATE_FORMAT = Inl ValueError"
  using assms
  by (auto simp: strptime_def parse_second_def p_lit_def split: option.splits if_splits)

lemma strptime_valid: "strptime s fmt = Inr t \<Longrightarrow> valid_datetime t"
  by (cases fmt) (auto simp: strptime_def split: option.splits if_splits)

lemma strptime_error: "strptime s fmt = Inl e \<Longrightarrow> e = ValueError"
  by (cases fmt) (auto simp: strptime_def split: option.splits if_splits)

lemma strptime_alt_second: "strptime s ALT_DATE_FORMAT = Inr t \<Longrightarrow> second t = 0"
  by (auto simp: strptime_def parse_ymdhm_def split: option.splits if_splits Option.bind_splits)

section \<open>The leaf classes\<close>

text \<open>
  \<^verbatim>\<open>Currency\<close>, \<^verbatim>\<open>Category\<close>, \<^verbatim>\<open>Option\<close>, \<^verbatim>\<open>Gift\<close>, \<^verbatim>\<open>Promo\<close> and the eight
  offer classes live in modules that are not among the source files at hand; shop.py
  only calls their methods.  They are a parameter of the development: \<open>'m\<close> is the type
  of their instances, \<open>'d\<close> the type of the dictionaries \<^verbatim>\<open>to_dict\<close> returns, and a
  record of type \<open>('m, 'd) models\<close> holds the methods shop.py calls.
  \<open>to_xml\<close> and \<open>to_dict\<close> are the instance methods (dispatched on the object, so one
  function each); the \<open>from_xml\<close> functions are the static methods, one per class.
  An offer's \<^verbatim>\<open>from_iterator(iterator, offer_el)\<close> advances the shared iterator; it
  returns the offer and the number of tokens it has taken.
\<close>

datatype event = Start | End

type_synonym token = "event \<times> xml"

datatype offer_class =
    SimplifiedOffer | ArbitraryOffer | BookOffer | AudioBookOffer
  | MusicVideoOffer | MedicineOffer | EventTicketOffer | AlcoholOffer

record ('m, 'd) models =
  to_xml :: "'m \<Rightarrow> xml"
  to_dict :: "'m \<Rightarrow> 'd"
  Currency_from_xml :: "xml \<Rightarrow> error + 'm"
  Category_from_xml :: "xml \<Rightarrow> error + 'm"
  Option_from_xml :: "xml \<Rightarrow> error + 'm"
  Gift_from_xml :: "xml \<Rightarrow> error + 'm"
  Promo_from_xml :: "xml \<Rightarrow> error + 'm"
  Offer_from_xml :: "offer_class \<Rightarrow> xml \<Rightarrow> error + 'm"
  Offer_from_iterator :: "offer_class \<Rightarrow> token list \<Rightarrow> xml \<Rightarrow> error + ('m \<times> nat)"

section \<open>The field mixins of Shop\<close>

text \<open>
  What a caller may pass for \<^verbatim>\<open>enable_auto_discounts\<close>: \<^verbatim>\<open>None\<close>, a \<^verbatim>\<open>bool\<close> or
  a \<^verbatim>\<open>str\<close>.
\<close>

datatype pyval = PNone | PBool bool | PStr string

definition upper_letters :: string where
  "upper_letters = ''ABCDEFGHIJKLMNOPQRSTUVWXYZ''"

definition lower_letters :: string where
  "lower_letters = ''abcdefghijklmnopqrstuvwxyz''"

text \<open>\<^verbatim>\<open>str.lower()\<close> on ASCII text.\<close>

definition lower_char :: "char \<Rightarrow> char" where
  "lower_char c =
     (if c \<in> set upper_letters then lower_letters ! index_of c upper_letters else c)"

definition lower :: "string \<Rightarrow> string" where
  "lower s = map lower_char s"

definition TRUE_TOKENS :: "string list" where
  "TRUE_TOKENS = [''yes'', ''true'', ''1'']"

definition FALSE_TOKENS :: "string list" where
  "FALSE_TOKENS = [''no'', ''false'', ''0'']"

definition ENABLE_AUTO_DISCOUNTS_CHOICES :: "string list" where
  "ENABLE_AUTO_DISCOUNTS_CHOICES = TRUE_TOKENS @ FALSE_TOKENS"

text \<open>\<^verbatim>\<open>", ".join(xs)\<close>.\<close>

fun join_comma :: "string list \<Rightarrow> string" where
  "join_comma [] = []"
| "join_comma [x] = x"
| "join_comma (x # y # ys) = x @ '', '' @ join_comma (y # ys)"

text \<open>The message test_models.py expects of \<^verbatim>\<open>EnableAutoDiscountsValidationError\<close>.\<close>

definition enable_auto_discounts_msg :: string where
  "enable_auto_discounts_msg =
     ''enable_auto_discounts should be True, False or str from available values: '' @
     join_comma ENABLE_AUTO_DISCOUNTS_CHOICES"

text \<open>
  Modelled from the spec: the check \<^verbatim>\<open>boolish(value, true_tokens, false_tokens)\<close> of
  section 4.1 (the module holding the validation helpers is not among the source
  files).  It accepts \<^verbatim>\<open>None\<close>, a boolean, or a token of either set compared without
  regard to case; tokens map to a boolean and anything else fails with the
  enum-violation error that lists the allowed tokens.
\<close>

definition boolish :: "pyval \<Rightarrow> error + bool option" where
  "boolish value =
     (case value of
        PNone \<Rightarrow> Inr None
      | PBool b \<Rightarrow> Inr (Some b)
      | PStr s \<Rightarrow>
          (if lower s \<in> set TRUE_TOKENS then Inr (Some True)
           else if lower s \<in> set FALSE_TOKENS then Inr (Some False)
           else Inl (EnableAutoDiscountsValidationError enable_auto_discounts_msg)))"

text \<open>
  Modelled from the spec: the mixin \<^verbatim>\<open>fields.EnableAutoDiscountField\<close> (fields.py is
  not among the source files).  The setter validates with \<open>boolish\<close> and keeps, in the
  slot \<^verbatim>\<open>_enable_auto_discounts\<close>, the literal \<^verbatim>\<open>"true"\<close> or \<^verbatim>\<open>"false"\<close> that
  \<^verbatim>\<open>Shop.create_xml\<close> writes as the element's text (section 3: tokens are normalized to
  the \<^verbatim>\<open>true\<close>/\<^verbatim>\<open>false\<close> literals); the getter gives the boolean back.
\<close>

definition normalized_token :: "pyval \<Rightarrow> error + string option" where
  "normalized_token value =
     (case boolish value of
        Inl e \<Rightarrow> Inl e
      | Inr None \<Rightarrow> Inr None
      | Inr (Some b) \<Rightarrow> Inr (Some (if b then ''true'' else ''false'')))"

definition str_to_bool :: "string option \<Rightarrow> bool option" where
  "str_to_bool raw =
     (case raw of
        None \<Rightarrow> None
      | Some s \<Rightarrow> if s = ''true'' then Some True else if s = ''false'' then Some False else None)"

section \<open>Shop\<close>

text \<open>
  A member of \<^verbatim>\<open>currencies\<close> is a \<^verbatim>\<open>Currency\<close> or, as \<^verbatim>\<open>create_xml\<close> provides for
  with its \<^verbatim>\<open>isinstance(c, str)\<close> test, a plain string.
\<close>

datatype 'm currency_item = CurrencyStr string | CurrencyObj 'm

text \<open>
  The slots of a Shop.  The primed fields are the private slots \<^verbatim>\<open>_url\<close>,
  \<^verbatim>\<open>_delivery_options\<close>, \<^verbatim>\<open>_pickup_options\<close> and \<^verbatim>\<open>_enable_auto_discounts\<close>.  Text
  fields hold a \<^verbatim>\<open>str\<close> or \<^verbatim>\<open>None\<close>; the optional collections hold a list or \<^verbatim>\<open>None\<close>.
\<close>

record 'm shop =
  name :: "string option"
  company :: "string option"
  url' :: "string option"
  platform :: "string option"
  version :: "string option"
  agency :: "string option"
  email :: "string option"
  currencies :: "'m currency_item list"
  categories :: "'m list"
  delivery_options' :: "'m list option"
  pickup_options' :: "'m list option"
  enable_auto_discounts' :: "string option"
  offers :: "'m list"
  gifts :: "'m list option"
  promos :: "'m list option"

text \<open>The property \<^verbatim>\<open>url\<close>: the getter returns the slot, the setter stores the value.\<close>

definition url :: "'m shop \<Rightarrow> string option" where
  "url s = url' s"

definition url_setter :: "'m shop \<Rightarrow> string option \<Rightarrow> 'm shop" where
  "url_setter s value = s\<lparr>url' := value\<rparr>"

text \<open>
  Modelled from the spec: the mixins \<^verbatim>\<open>fields.DeliveryOptionsField\<close> and
  \<^verbatim>\<open>fields.PickupOptionsField\<close> (fields.py is not among the source files).  The groups
  are optional ordered lists; an absent group reads as the empty list, which is what
  \<^verbatim>\<open>create_dict\<close> iterates and \<^verbatim>\<open>create_xml\<close> tests.
\<close>

definition delivery_options :: "'m shop \<Rightarrow> 'm list" where
  "delivery_options s = (case delivery_options' s of None \<Rightarrow> [] | Some os \<Rightarrow> os)"

definition pickup_options :: "'m shop \<Rightarrow> 'm list" where
  "pickup_options s = (case pickup_options' s of None \<Rightarrow> [] | Some os \<Rightarrow> os)"

definition enable_auto_discounts :: "'m shop \<Rightarrow> bool option" where
  "enable_auto_discounts s = str_to_bool (enable_auto_discounts' s)"

definition enable_auto_discounts_setter :: "'m shop \<Rightarrow> pyval \<Rightarrow> error + 'm shop" where
  "enable_auto_discounts_setter s value =
     (case normalized_token value of
        Inl e \<Rightarrow> Inl e
      | Inr raw \<Rightarrow> Inr (s\<lparr>enable_auto_discounts' := raw\<rparr>))"

text \<open>
  \<^verbatim>\<open>Shop.__init__\<close>, its parameters in the order of the signature.  Every assignment
  runs the attribute's setter; the only one that can raise is that of
  \<^verbatim>\<open>enable_auto_discounts\<close>.
\<close>

definition Shop_init ::
  "string option \<Rightarrow> string option \<Rightarrow> 'm currency_item list \<Rightarrow> 'm list \<Rightarrow> 'm list \<Rightarrow>
   string option \<Rightarrow> string option \<Rightarrow> string option \<Rightarrow> string option \<Rightarrow> string option \<Rightarrow>
   'm list option \<Rightarrow> 'm list option \<Rightarrow> pyval \<Rightarrow> 'm list option \<Rightarrow> 'm list option \<Rightarrow>
   error + 'm shop" where
  "Shop_init name0 company0 currencies0 categories0 offers0 url0 platform0 version0 agency0
     email0 delivery_options0 pickup_options0 enable_auto_discounts0 gifts0 promos0 =
     (case normalized_token enable_auto_discounts0 of
        Inl e \<Rightarrow> Inl e
      | Inr ead \<Rightarrow>
          Inr \<lparr>name = name0, company = company0, url' = url0, platform = platform0,
               version = version0, agency = agency0, email = email0,
               currencies = currencies0, categories = categories0,
               delivery_options' = delivery_options0, pickup_options' = pickup_options0,
               enable_auto_discounts' = ead, offers = offers0, gifts = gifts0,
               promos = promos0\<rparr>)"

subsection \<open>\<^verbatim>\<open>Shop.create_dict\<close>\<close>

record 'd shop_dict =
  d_name :: "string option"
  d_company :: "string option"
  d_url :: "string option"
  d_platform :: "string option"
  d_version :: "string option"
  d_agency :: "string option"
  d_email :: "string option"
  d_currencies :: "'d list"
  d_categories :: "'d list"
  d_delivery_options :: "'d list"
  d_pickup_options :: "'d list"
  d_enable_auto_discounts :: "bool option"
  d_offers :: "'d list"
  d_gifts :: "'d list"
  d_promos :: "'d list"

text \<open>
  \<^verbatim>\<open>[c.to_dict() for c in self.currencies]\<close>: a plain string has no \<^verbatim>\<open>to_dict\<close>.
\<close>

fun currencies_to_dict :: "('m, 'd) models \<Rightarrow> 'm currency_item list \<Rightarrow> error + 'd list" where
  "currencies_to_dict M [] = Inr []"
| "currencies_to_dict M (CurrencyStr s # cs) =
     Inl (AttributeError ''str object has no attribute to_dict'')"
| "currencies_to_dict M (CurrencyObj c # cs) =
     (case currencies_to_dict M cs of Inl e \<Rightarrow> Inl e | Inr ds \<Rightarrow> Inr (to_dict M c # ds))"

definition list_or_empty :: "'a list option \<Rightarrow> 'a list" where
  "list_or_empty xs = (case xs of None \<Rightarrow> [] | Some l \<Rightarrow> l)"

definition Shop_create_dict :: "('m, 'd) models \<Rightarrow> 'm shop \<Rightarrow> error + 'd shop_dict" where
  "Shop_create_dict M s =
     (case currencies_to_dict M (currencies s) of
        Inl e \<Rightarrow> Inl e
      | Inr cur \<Rightarrow>
          Inr \<lparr>d_name = name s, d_company = company s, d_url = url s,
               d_platform = platform s, d_version = version s, d_agency = agency s,
               d_email = email s, d_currencies = cur,
               d_categories = map (to_dict M) (categories s),
               d_delivery_options = map (to_dict M) (delivery_options s),
               d_pickup_options = map (to_dict M) (pickup_options s),
               d_enable_auto_discounts = enable_auto_discounts s,
               d_offers = map (to_dict M) (offers s),
               d_gifts = map (to_dict M) (list_or_empty (gifts s)),
               d_promos = map (to_dict M) (list_or_empty (promos s))\<rparr>)"

text \<open>\<^verbatim>\<open>to_dict()\<close> with its default arguments is \<^verbatim>\<open>create_dict()\<close>.\<close>

definition Shop_to_dict :: "('m, 'd) models \<Rightarrow> 'm shop \<Rightarrow> error + 'd shop_dict" where
  "Shop_to_dict M s = Shop_create_dict M s"

subsection \<open>\<^verbatim>\<open>Shop.create_xml\<close>\<close>

definition simple_tags :: "string list" where
  "simple_tags = [''name'', ''company'', ''url'', ''platform'', ''version'', ''agency'', ''email'']"

text \<open>\<^verbatim>\<open>getattr(self, tag)\<close> for the tags of the loop over the simple elements.\<close>

definition getattr :: "'m shop \<Rightarrow> string \<Rightarrow> string option" where
  "getattr s t =
     (if t = ''name'' then name s
      else if t = ''company'' then company s
      else if t = ''url'' then url s
      else if t = ''platform'' then platform s
      else if t = ''version'' then version s
      else if t = ''agency'' then agency s
      else if t = ''email'' then email s
      else None)"

text \<open>
  \<^verbatim>\<open>XMLSubElement(parent, tag)\<close> followed by what the code then does to the new child
  (its text set, or children appended by \<^verbatim>\<open>to_xml(child)\<close>): the child is built first
  and appended whole.
\<close>

definition XMLSubElement :: "xml \<Rightarrow> string \<Rightarrow> string option \<Rightarrow> xml list \<Rightarrow> xml" where
  "XMLSubElement parent t txt cs = append_child parent (Element t [] txt cs)"

definition add_simple :: "'m shop \<Rightarrow> xml \<Rightarrow> string \<Rightarrow> xml" where
  "add_simple s shop_el t =
     (let value = getattr s t in
      if truthy value then XMLSubElement shop_el t value [] else shop_el)"

text \<open>The members of \<^verbatim>\<open>currencies\<close> that \<^verbatim>\<open>create_xml\<close> serializes.\<close>

fun currencies_to_xml :: "('m, 'd) models \<Rightarrow> 'm currency_item list \<Rightarrow> xml list" where
  "currencies_to_xml M [] = []"
| "currencies_to_xml M (CurrencyStr s # cs) = currencies_to_xml M cs"
| "currencies_to_xml M (CurrencyObj c # cs) = to_xml M c # currencies_to_xml M cs"

definition Shop_create_xml :: "('m, 'd) models \<Rightarrow> 'm shop \<Rightarrow> xml" where
  "Shop_create_xml M s =
     (let shop_el = XMLElement ''shop'' [];
          shop_el = foldl (add_simple s) shop_el simple_tags;
          shop_el = XMLSubElement shop_el ''currencies'' None (currencies_to_xml M (currencies s));
          shop_el = XMLSubElement shop_el ''categories'' None (map (to_xml M) (categories s));
          shop_el = (if delivery_options s \<noteq> []
                     then XMLSubElement shop_el ''delivery-options'' None
                            (map (to_xml M) (delivery_options s))
                     else shop_el);
          shop_el = (if pickup_options s \<noteq> []
                     then XMLSubElement shop_el ''pickup-options'' None
                            (map (to_xml M) (pickup_options s))
                     else shop_el);
          shop_el = (if truthy (enable_auto_discounts' s)
                     then XMLSubElement shop_el ''enable_auto_discounts''
                            (enable_auto_discounts' s) []
                     else shop_el);
          shop_el = XMLSubElement shop_el ''offers'' None (map (to_xml M) (offers s));
          shop_el = (if list_or_empty (gifts s) \<noteq> []
                     then XMLSubElement shop_el ''gifts'' None
                            (map (to_xml M) (list_or_empty (gifts s)))
                     else shop_el);
          shop_el = (if list_or_empty (promos s) \<noteq> []
                     then XMLSubElement shop_el ''promos'' None
                            (map (to_xml M) (list_or_empty (promos s)))
                     else shop_el)
      in shop_el)"

subsection \<open>The keyword dictionary and the call \<^verbatim>\<open>Shop(**kwargs)\<close>\<close>

text \<open>
  The decoders collect a dictionary \<^verbatim>\<open>kwargs\<close>; a value is the text of an element
  (a \<^verbatim>\<open>str\<close> or \<^verbatim>\<open>None\<close>) or a list of decoded objects.
\<close>

datatype 'm kwval = VText "string option" | VList "'m list"

type_synonym 'm kwargs = "string \<Rightarrow> 'm kwval option"

text \<open>\<^verbatim>\<open>inspect.getfullargspec(Shop.__init__).args[1:]\<close>.\<close>

definition Shop_init_args :: "string list" where
  "Shop_init_args =
     [''name'', ''company'', ''currencies'', ''categories'', ''offers'', ''url'', ''platform'',
      ''version'', ''agency'', ''email'', ''delivery_options'', ''pickup_options'',
      ''enable_auto_discounts'', ''gifts'', ''promos'']"

text \<open>
  Binding the keywords to the parameters.  A parameter without default that has no
  keyword is Python's \<open>TypeError\<close>.  A keyword of the wrong shape (text where the
  signature asks for a list) can only come from a foreign tag spelled like a list
  parameter or from an unbalanced token stream; Python would store it unchecked and
  fail when the field is used, the typed record cannot hold it, and the model ends
  the call with the same \<open>TypeError\<close> at the binding.
\<close>

definition required_text :: "'m kwargs \<Rightarrow> string \<Rightarrow> string option option" where
  "required_text kw k = (case kw k of Some (VText t) \<Rightarrow> Some t | _ \<Rightarrow> None)"

definition optional_text :: "'m kwargs \<Rightarrow> string \<Rightarrow> string option option" where
  "optional_text kw k =
     (case kw k of None \<Rightarrow> Some None | Some (VText t) \<Rightarrow> Some t | Some (VList l) \<Rightarrow> None)"

definition required_list :: "'m kwargs \<Rightarrow> string \<Rightarrow> 'm list option" where
  "required_list kw k = (case kw k of Some (VList l) \<Rightarrow> Some l | _ \<Rightarrow> None)"

definition optional_list :: "'m kwargs \<Rightarrow> string \<Rightarrow> 'm list option option" where
  "optional_list kw k =
     (case kw k of
        None \<Rightarrow> Some None
      | Some (VList l) \<Rightarrow> Some (Some l)
      | Some (VText None) \<Rightarrow> Some None
      | Some (VText (Some t)) \<Rightarrow> None)"

definition pyval_of_text :: "string option \<Rightarrow> pyval" where
  "pyval_of_text t = (case t of None \<Rightarrow> PNone | Some s \<Rightarrow> PStr s)"

definition Shop_of_kwargs :: "'m kwargs \<Rightarrow> error + 'm shop" where
  "Shop_of_kwargs kw =
     (case do {
        name0 \<leftarrow> required_text kw ''name'';
        company0 \<leftarrow> required_text kw ''company'';
        currencies0 \<leftarrow> required_list kw ''currencies'';
        categories0 \<leftarrow> required_list kw ''categories'';
        offers0 \<leftarrow> required_list kw ''offers'';
        url0 \<leftarrow> optional_text kw ''url'';
        platform0 \<leftarrow> optional_text kw ''platform'';
        version0 \<leftarrow> optional_text kw ''version'';
        agency0 \<leftarrow> optional_text kw ''agency'';
        email0 \<leftarrow> optional_text kw ''email'';
        delivery_options0 \<leftarrow> optional_list kw ''delivery_options'';
        pickup_options0 \<leftarrow> optional_list kw ''pickup_options'';
        enable_auto_discounts0 \<leftarrow> optional_text kw ''enable_auto_discounts'';
        gifts0 \<leftarrow> optional_list kw ''gifts'';
        promos0 \<leftarrow> optional_list kw ''promos'';
        Some (Shop_init name0 company0 (map CurrencyObj currencies0) categories0 offers0
                url0 platform0 version0 agency0 email0 delivery_options0 pickup_options0
                (pyval_of_text enable_auto_discounts0) gifts0 promos0)
      } of
        None \<Rightarrow> Inl (TypeError ''__init__() arguments'')
      | Some r \<Rightarrow> r)"

text \<open>
  The end of both decoders: \<^verbatim>\<open>currencies\<close> defaults to the empty list, and the
  dictionary is cut down to the constructor's parameter names.
\<close>

definition default_currencies :: "'m kwargs \<Rightarrow> 'm kwargs" where
  "default_currencies kw =
     (if kw ''currencies'' = None then kw(''currencies'' \<mapsto> VList []) else kw)"

definition filter_args :: "'m kwargs \<Rightarrow> 'm kwargs" where
  "filter_args kw = (\<lambda>key. if key \<in> set Shop_init_args then kw key else None)"

subsection \<open>\<^verbatim>\<open>Shop.from_xml\<close>\<close>

text \<open>
  The inner loops \<^verbatim>\<open>for x_el in el: xs.append(X.from_xml(x_el))\<close>; the first element
  that fails to decode ends the call.
\<close>

fun from_xml_each :: "(xml \<Rightarrow> error + 'm) \<Rightarrow> xml list \<Rightarrow> error + 'm list" where
  "from_xml_each f [] = Inr []"
| "from_xml_each f (x # xs) =
     (case f x of
        Inl e \<Rightarrow> Inl e
      | Inr y \<Rightarrow> (case from_xml_each f xs of Inl e \<Rightarrow> Inl e | Inr ys \<Rightarrow> Inr (y # ys)))"

text \<open>The dispatch on the \<^verbatim>\<open>type\<close> attribute of an offer element (lines 198 to 218).\<close>

definition from_xml_offer :: "('m, 'd) models \<Rightarrow> xml \<Rightarrow> error + 'm" where
  "from_xml_offer M offer_el =
     (case attrib_get offer_el ''type'' of
        None \<Rightarrow> Offer_from_xml M SimplifiedOffer offer_el
      | Some offer_type \<Rightarrow>
          (if offer_type = ''vendor.model'' then Offer_from_xml M ArbitraryOffer offer_el
           else if offer_type = ''book'' then Offer_from_xml M BookOffer offer_el
           else if offer_type = ''audiobook'' then Offer_from_xml M AudioBookOffer offer_el
           else if offer_type = ''artist.title'' then Offer_from_xml M MusicVideoOffer offer_el
           else if offer_type = ''medicine'' then Offer_from_xml M MedicineOffer offer_el
           else if offer_type = ''event-ticket'' then Offer_from_xml M EventTicketOffer offer_el
           else if offer_type = ''alco'' then Offer_from_xml M AlcoholOffer offer_el
           else Inl (ParseError (''Got unexpected offer type: '' @ offer_type))))"

text \<open>One round of the loop over the children of the shop element.\<close>

definition from_xml_child :: "('m, 'd) models \<Rightarrow> 'm kwargs \<Rightarrow> xml \<Rightarrow> error + 'm kwargs" where
  "from_xml_child M kwargs el =
     (if tag el = ''currencies'' then
        (case from_xml_each (Currency_from_xml M) (children el) of
           Inl e \<Rightarrow> Inl e
         | Inr currencies0 \<Rightarrow> Inr (kwargs(''currencies'' \<mapsto> VList currencies0)))
      else if tag el = ''categories'' then
        (case from_xml_each (Category_from_xml M) (children el) of
           Inl e \<Rightarrow> Inl e
         | Inr categories0 \<Rightarrow> Inr (kwargs(''categories'' \<mapsto> VList categories0)))
      else if tag el = ''delivery-options'' then
        (case from_xml_each (Option_from_xml M) (children el) of
           Inl e \<Rightarrow> Inl e
         | Inr options \<Rightarrow> Inr (kwargs(''delivery_options'' \<mapsto> VList options)))
      else if tag el = ''pickup-options'' then
        (case from_xml_each (Option_from_xml M) (children el) of
           Inl e \<Rightarrow> Inl e
         | Inr options \<Rightarrow> Inr (kwargs(''pickup_options'' \<mapsto> VList options)))
      else if tag el = ''offers'' then
        (case from_xml_each (from_xml_offer M) (children el) of
           Inl e \<Rightarrow> Inl e
         | Inr offers0 \<Rightarrow> Inr (kwargs(''offers'' \<mapsto> VList offers0)))
      else if tag el = ''gifts'' then
        (case from_xml_each (Gift_from_xml M) (children el) of
           Inl e \<Rightarrow> Inl e
         | Inr gifts0 \<Rightarrow>
             Inr (if gifts0 \<noteq> [] then kwargs(''gifts'' \<mapsto> VList gifts0) else kwargs))
      else if tag el = ''promos'' then
        (case from_xml_each (Promo_from_xml M) (children el) of
           Inl e \<Rightarrow> Inl e
         | Inr promos0 \<Rightarrow>
             Inr (if promos0 \<noteq> [] then kwargs(''promos'' \<mapsto> VList promos0) else kwargs))
      else Inr (kwargs(tag el \<mapsto> VText (el_text el))))"

fun from_xml_loop :: "('m, 'd) models \<Rightarrow> 'm kwargs \<Rightarrow> xml list \<Rightarrow> error + 'm kwargs" where
  "from_xml_loop M kwargs [] = Inr kwargs"
| "from_xml_loop M kwargs (el # els) =
     (case from_xml_child M kwargs el of
        Inl e \<Rightarrow> Inl e
      | Inr kwargs' \<Rightarrow> from_xml_loop M kwargs' els)"

text \<open>The dictionary \<^verbatim>\<open>Shop.from_xml\<close> passes to the constructor.\<close>

definition Shop_from_xml_kwargs :: "('m, 'd) models \<Rightarrow> xml \<Rightarrow> error + 'm kwargs" where
  "Shop_from_xml_kwargs M shop_el =
     (case from_xml_loop M Map.empty (children shop_el) of
        Inl e \<Rightarrow> Inl e
      | Inr kwargs \<Rightarrow> Inr (filter_args (default_currencies kwargs)))"

definition Shop_from_xml :: "('m, 'd) models \<Rightarrow> xml \<Rightarrow> error + 'm shop" where
  "Shop_from_xml M shop_el =
     (case Shop_from_xml_kwargs M shop_el of
        Inl e \<Rightarrow> Inl e
      | Inr kwargs \<Rightarrow> Shop_of_kwargs kwargs)"

subsection \<open>\<^verbatim>\<open>Shop.from_iterator\<close>\<close>

text \<open>
  The iterator is the list of the tokens not yet taken.  The inner loops of the
  \<^verbatim>\<open>currencies\<close>, \<^verbatim>\<open>categories\<close>, \<^verbatim>\<open>delivery-options\<close> and \<^verbatim>\<open>pickup-options\<close> branches
  have one shape: stop after the \<^verbatim>\<open>end\<close> event of the wrapper, decode the element of
  every other \<^verbatim>\<open>end\<close> event, pass over \<^verbatim>\<open>start\<close> events.  Each returns what it has
  collected and what is left of the iterator.
\<close>

fun wrapper_loop ::
  "(xml \<Rightarrow> error + 'm) \<Rightarrow> string \<Rightarrow> 'm list \<Rightarrow> token list \<Rightarrow> error + ('m list \<times> token list)" where
  "wrapper_loop f w acc [] = Inr (acc, [])"
| "wrapper_loop f w acc ((event, el) # iterator) =
     (if event = End \<and> tag el = w then Inr (acc, iterator)
      else if event = End then
        (case f el of
           Inl e \<Rightarrow> Inl e
         | Inr x \<Rightarrow> wrapper_loop f w (acc @ [x]) iterator)
      else wrapper_loop f w acc iterator)"

text \<open>The dispatch on the \<^verbatim>\<open>type\<close> attribute in the offers loop (lines 307 to 327).\<close>

definition from_iterator_offer ::
  "('m, 'd) models \<Rightarrow> token list \<Rightarrow> xml \<Rightarrow> error + ('m \<times> nat)" where
  "from_iterator_offer M iterator offer_el =
     (case attrib_get offer_el ''type'' of
        None \<Rightarrow> Offer_from_iterator M SimplifiedOffer iterator offer_el
      | Some offer_type \<Rightarrow>
          (if offer_type = ''vendor.model'' then
             Offer_from_iterator M ArbitraryOffer iterator offer_el
           else if offer_type = ''book'' then
             Offer_from_iterator M BookOffer iterator offer_el
           else if offer_type = ''audiobook'' then
             Offer_from_iterator M AudioBookOffer iterator offer_el
           else if offer_type = ''artist.title'' then
             Offer_from_iterator M MusicVideoOffer iterator offer_el
           else if offer_type = ''medicine'' then
             Offer_from_iterator M MedicineOffer iterator offer_el
           else if offer_type = ''event-ticket'' then
             Offer_from_iterator M EventTicketOffer iterator offer_el
           else if offer_type = ''alco'' then
             Offer_from_iterator M AlcoholOffer iterator offer_el
           else Inl (ParseError (''Got unexpected offer type: '' @ offer_type))))"

fun offers_loop ::
  "('m, 'd) models \<Rightarrow> 'm list \<Rightarrow> token list \<Rightarrow> error + ('m list \<times> token list)" where
  "offers_loop M acc [] = Inr (acc, [])"
| "offers_loop M acc ((event, offer_el) # iterator) =
     (if event = End \<and> tag offer_el = ''offers'' then Inr (acc, iterator)
      else if event = Start \<and> tag offer_el = ''offer'' then
        (case from_iterator_offer M iterator offer_el of
           Inl e \<Rightarrow> Inl e
         | Inr (offer, n) \<Rightarrow> offers_loop M (acc @ [offer]) (drop n iterator))
      else offers_loop M acc iterator)"

text \<open>
  The loops of the \<^verbatim>\<open>gifts\<close> and \<^verbatim>\<open>promos\<close> branches are written
  \<^verbatim>\<open>for gift_el in iterator\<close>: the loop variable is the whole (event, element) pair and
  \<^verbatim>\<open>event\<close> keeps the value it had when the branch was entered.  With \<^verbatim>\<open>event\<close> being
  \<^verbatim>\<open>'start'\<close> both tests fail on every token, so the loop runs the iterator out and
  collects nothing; with \<^verbatim>\<open>'end'\<close> the first test would read \<^verbatim>\<open>.tag\<close> of a tuple.
\<close>

fun pair_loop :: "event \<Rightarrow> 'm list \<Rightarrow> token list \<Rightarrow> error + ('m list \<times> token list)" where
  "pair_loop event acc [] = Inr (acc, [])"
| "pair_loop event acc (pair # iterator) =
     (if event = End then Inl (AttributeError ''tuple object has no attribute tag'')
      else pair_loop event acc iterator)"

lemma wrapper_loop_length:
  "wrapper_loop f w acc iterator = Inr (xs, rest) \<Longrightarrow> length rest \<le> length iterator"
  by (induction f w acc iterator rule: wrapper_loop.induct)
     (auto split: if_splits sum.splits)

lemma offers_loop_length:
  "offers_loop M acc iterator = Inr (xs, rest) \<Longrightarrow> length rest \<le> length iterator"
  by (induction M acc iterator rule: offers_loop.induct)
     (fastforce split: if_splits sum.splits prod.splits)+

lemma pair_loop_length:
  "pair_loop event acc iterator = Inr (xs, rest) \<Longrightarrow> length rest \<le> length iterator"
  by (induction event acc iterator rule: pair_loop.induct)
     (auto split: if_splits)

text \<open>
  One round of the outer loop: the dictionary as the round leaves it and what is left
  of the iterator.  A branch that runs an inner loop hands on what that loop has
  left.  The test of the \<^verbatim>\<open>pickup-options\<close> branch has no \<^verbatim>\<open>event == 'start'\<close>.
\<close>

definition from_iterator_round ::
  "('m, 'd) models \<Rightarrow> 'm kwargs \<Rightarrow> event \<Rightarrow> xml \<Rightarrow> token list \<Rightarrow>
   error + ('m kwargs \<times> token list)" where
  "from_iterator_round M kwargs event el iterator =
     (if tag el = ''currencies'' \<and> event = Start then
        (case wrapper_loop (Currency_from_xml M) ''currencies'' [] iterator of
           Inl e \<Rightarrow> Inl e
         | Inr (currencies0, rest) \<Rightarrow> Inr (kwargs(''currencies'' \<mapsto> VList currencies0), rest))
      else if tag el = ''categories'' \<and> event = Start then
        (case wrapper_loop (Category_from_xml M) ''categories'' [] iterator of
           Inl e \<Rightarrow> Inl e
         | Inr (categories0, rest) \<Rightarrow> Inr (kwargs(''categories'' \<mapsto> VList categories0), rest))
      else if tag el = ''delivery-options'' \<and> event = Start then
        (case wrapper_loop (Option_from_xml M) ''delivery-options'' [] iterator of
           Inl e \<Rightarrow> Inl e
         | Inr (options, rest) \<Rightarrow> Inr (kwargs(''delivery_options'' \<mapsto> VList options), rest))
      else if tag el = ''pickup-options'' then
        (case wrapper_loop (Option_from_xml M) ''pickup-options'' [] iterator of
           Inl e \<Rightarrow> Inl e
         | Inr (options, rest) \<Rightarrow> Inr (kwargs(''pickup_options'' \<mapsto> VList options), rest))
      else if tag el = ''offers'' \<and> event = Start then
        (case offers_loop M [] iterator of
           Inl e \<Rightarrow> Inl e
         | Inr (offers0, rest) \<Rightarrow> Inr (kwargs(''offers'' \<mapsto> VList offers0), rest))
      else if tag el = ''gifts'' \<and> event = Start then
        (case pair_loop event [] iterator of
           Inl e \<Rightarrow> Inl e
         | Inr (gifts0, rest) \<Rightarrow>
             Inr (if gifts0 \<noteq> [] then kwargs(''gifts'' \<mapsto> VList gifts0) else kwargs, rest))
      else if tag el = ''promos'' \<and> event = Start then
        (case pair_loop event [] iterator of
           Inl e \<Rightarrow> Inl e
         | Inr (promos0, rest) \<Rightarrow>
             Inr (if promos0 \<noteq> [] then kwargs(''promos'' \<mapsto> VList promos0) else kwargs, rest))
      else
        Inr (if event = End then kwargs(tag el \<mapsto> VText (el_text el)) else kwargs, iterator))"

lemma from_iterator_round_length:
  "from_iterator_round M kwargs event el iterator = Inr (kwargs', rest) \<Longrightarrow>
   length rest \<le> length iterator"
  unfolding from_iterator_round_def
  by (auto split: if_splits sum.splits prod.splits
      dest: wrapper_loop_length offers_loop_length pair_loop_length)

text \<open>The outer loop \<^verbatim>\<open>for event, el in iterator\<close>.\<close>

function from_iterator_loop ::
  "('m, 'd) models \<Rightarrow> 'm kwargs \<Rightarrow> token list \<Rightarrow> error + 'm kwargs" where
  "from_iterator_loop M kwargs [] = Inr kwargs"
| "from_iterator_loop M kwargs ((event, el) # iterator) =
     (case from_iterator_round M kwargs event el iterator of
        Inl e \<Rightarrow> Inl e
      | Inr (kwargs', rest) \<Rightarrow> from_iterator_loop M kwargs' rest)"
  by pat_completeness auto
termination
  by (relation "measure (\<lambda>(M, kwargs, iterator). length iterator)")
     (auto dest: from_iterator_round_length)

text \<open>The dictionary \<^verbatim>\<open>Shop.from_iterator\<close> passes to the constructor.\<close>

definition Shop_from_iterator_kwargs ::
  "('m, 'd) models \<Rightarrow> token list \<Rightarrow> error + 'm kwargs" where
  "Shop_from_iterator_kwargs M iterator =
     (case from_iterator_loop M Map.empty iterator of
        Inl e \<Rightarrow> Inl e
      | Inr kwargs \<Rightarrow> Inr (filter_args (default_currencies kwargs)))"

definition Shop_from_iterator :: "('m, 'd) models \<Rightarrow> token list \<Rightarrow> error + 'm shop" where
  "Shop_from_iterator M iterator =
     (case Shop_from_iterator_kwargs M iterator of
        Inl e \<Rightarrow> Inl e
      | Inr kwargs \<Rightarrow> Shop_of_kwargs kwargs)"

text \<open>
  The token sequence of a document, as \<^verbatim>\<open>ElementTree.iterparse\<close> with the events
  \<^verbatim>\<open>start\<close> and \<^verbatim>\<open>end\<close> yields it: an element opens, its children follow in order,
  it closes.
\<close>

fun iterparse :: "xml \<Rightarrow> token list" where
  "iterparse (Element t a x cs) =
     (Start, Element t a x cs) # concat (map iterparse cs) @ [(End, Element t a x cs)]"

section \<open>Feed\<close>

record 'm feed =
  shop :: "'m shop"
  date' :: string

text \<open>The errors \<^verbatim>\<open>except (ValidationError, ValueError)\<close> catches.\<close>

fun caught :: "error \<Rightarrow> bool" where
  "caught (ValidationError m) = True"
| "caught (EnableAutoDiscountsValidationError m) = True"
| "caught ValueError = True"
| "caught e = False"

text \<open>
  Modelled from the spec: the helper \<^verbatim>\<open>AbstractModel._is_valid_datetime(dt, dt_format,
  attr, allow_none)\<close> (abstract.py is not among the source files).  By section 4.1 a
  check returns the normalized value or fails with a validation error, and by
  sections 3 and 6 the timestamp is always stored and encoded in the primary format:
  a string that parses under \<open>dt_format\<close> comes back rendered in \<open>DATE_FORMAT\<close>, one
  that does not is a \<open>ValidationError\<close>, and \<^verbatim>\<open>None\<close> passes when \<open>allow_none\<close> is set.
  The value is \<^verbatim>\<open>None\<close> or a \<^verbatim>\<open>str\<close>, which is what \<^verbatim>\<open>Feed.from_xml\<close> passes.
\<close>

definition is_valid_datetime ::
  "string option \<Rightarrow> dt_format \<Rightarrow> string \<Rightarrow> bool \<Rightarrow> error + string option" where
  "is_valid_datetime dt dt_format attr allow_none =
     (case dt of
        None \<Rightarrow> if allow_none then Inr None else Inl (ValidationError attr)
      | Some s \<Rightarrow>
          (case strptime s dt_format of
             Inl e \<Rightarrow> Inl (ValidationError attr)
           | Inr t \<Rightarrow> Inr (Some (strftime t DATE_FORMAT))))"

text \<open>
  The setter of \<^verbatim>\<open>date\<close> (lines 34 to 42): the string it stores in \<^verbatim>\<open>_date\<close>.  \<open>now\<close>
  is the clock, \<^verbatim>\<open>datetime.now()\<close>.
\<close>

definition date_to_store :: "datetime \<Rightarrow> string option \<Rightarrow> error + string" where
  "date_to_store now dt =
     (case (case is_valid_datetime dt DATE_FORMAT ''date'' True of
              Inl e \<Rightarrow>
                if caught e then is_valid_datetime dt ALT_DATE_FORMAT ''date'' True else Inl e
            | Inr r \<Rightarrow> Inr r) of
        Inl e \<Rightarrow> Inl e
      | Inr None \<Rightarrow> Inr (strftime now DATE_FORMAT)
      | Inr (Some s) \<Rightarrow> Inr s)"

definition date_setter :: "datetime \<Rightarrow> 'm feed \<Rightarrow> string option \<Rightarrow> error + 'm feed" where
  "date_setter now f dt =
     (case date_to_store now dt of Inl e \<Rightarrow> Inl e | Inr d \<Rightarrow> Inr (f\<lparr>date' := d\<rparr>))"

text \<open>\<^verbatim>\<open>Feed.__init__(shop, date)\<close>.\<close>

definition Feed_init :: "datetime \<Rightarrow> 'm shop \<Rightarrow> string option \<Rightarrow> error + 'm feed" where
  "Feed_init now shop0 dt =
     (case date_to_store now dt of
        Inl e \<Rightarrow> Inl e
      | Inr d \<Rightarrow> Inr \<lparr>shop = shop0, date' = d\<rparr>)"

text \<open>
  The getter of \<^verbatim>\<open>date\<close> (lines 22 to 32).  \<^verbatim>\<open>strptime\<close> returns a datetime or
  raises, so the branch \<^verbatim>\<open>if dt is None\<close> is never taken.
\<close>

definition Feed_date :: "'m feed \<Rightarrow> error + datetime" where
  "Feed_date f =
     (case strptime (date' f) DATE_FORMAT of
        Inl e \<Rightarrow> if caught e then strptime (date' f) ALT_DATE_FORMAT else Inl e
      | Inr t \<Rightarrow> Inr t)"

record 'd feed_dict =
  d_shop :: "'d shop_dict"
  d_date :: datetime

definition Feed_create_dict :: "('m, 'd) models \<Rightarrow> 'm feed \<Rightarrow> error + 'd feed_dict" where
  "Feed_create_dict M f =
     (case Shop_to_dict M (shop f) of
        Inl e \<Rightarrow> Inl e
      | Inr sd \<Rightarrow>
          (case Feed_date f of
             Inl e \<Rightarrow> Inl e
           | Inr t \<Rightarrow> Inr \<lparr>d_shop = sd, d_date = t\<rparr>))"

definition Feed_to_dict :: "('m, 'd) models \<Rightarrow> 'm feed \<Rightarrow> error + 'd feed_dict" where
  "Feed_to_dict M f = Feed_create_dict M f"

text \<open>\<^verbatim>\<open>self.shop.to_xml(feed_el)\<close> appends the shop's element to the root.\<close>

definition Feed_create_xml :: "('m, 'd) models \<Rightarrow> 'm feed \<Rightarrow> xml" where
  "Feed_create_xml M f =
     (let feed_el = XMLElement ''yml_catalog'' [(''date'', date' f)]
      in append_child feed_el (Shop_create_xml M (shop f)))"

definition Feed_from_xml :: "('m, 'd) models \<Rightarrow> datetime \<Rightarrow> xml \<Rightarrow> error + 'm feed" where
  "Feed_from_xml M now el =
     (case children el of
        [] \<Rightarrow> Inl IndexError
      | el0 # els \<Rightarrow>
          (case Shop_from_xml M el0 of
             Inl e \<Rightarrow> Inl e
           | Inr shop0 \<Rightarrow> Feed_init now shop0 (attrib_get el ''date'')))"

section \<open>An instance of the leaf classes\<close>

text \<open>
  Modelled from the spec: an instance of the leaf classes, which are not among the
  source files, to run the decoders and encoders on concrete documents.  Currency,
  Category and Option follow sections 3, 4.2 and 6: a currency is an empty element
  with the attributes \<^verbatim>\<open>id\<close>, \<^verbatim>\<open>rate\<close> and, unless absent, \<^verbatim>\<open>plus\<close>; a category has
  \<^verbatim>\<open>id\<close> and, unless absent, \<^verbatim>\<open>parent_id\<close> as attributes and its name as text; an
  option has the attributes \<^verbatim>\<open>cost\<close>, \<^verbatim>\<open>days\<close> and, unless absent,
  \<^verbatim>\<open>order_before\<close>.  Their field validation is left out.  The spec gives no layout
  for offers, gifts and promos: an instance of these keeps the element it was read
  from, and an offer's streaming constructor takes the tokens up to the \<^verbatim>\<open>end\<close> event
  that closes the offer (section 4.6).
\<close>

datatype leaf =
    Currency string string "string option"
  | Category string "string option" "string option"
  | DeliveryOption string string "string option"
  | Offer offer_class xml
  | Gift xml
  | Promo xml

type_synonym leaf_dict = "(string \<times> string option) list"

definition optional_attrib :: "string \<Rightarrow> string option \<Rightarrow> (string \<times> string) list" where
  "optional_attrib k v = (case v of None \<Rightarrow> [] | Some x \<Rightarrow> [(k, x)])"

fun leaf_to_xml :: "leaf \<Rightarrow> xml" where
  "leaf_to_xml (Currency c r p) =
     Element ''currency'' ([(''id'', c), (''rate'', r)] @ optional_attrib ''plus'' p) None []"
| "leaf_to_xml (Category i n p) =
     Element ''category'' ([(''id'', i)] @ optional_attrib ''parent_id'' p) n []"
| "leaf_to_xml (DeliveryOption c d b) =
     Element ''option'' ([(''cost'', c), (''days'', d)] @ optional_attrib ''order_before'' b) None []"
| "leaf_to_xml (Offer k el) = el"
| "leaf_to_xml (Gift el) = el"
| "leaf_to_xml (Promo el) = el"

fun leaf_to_dict :: "leaf \<Rightarrow> leaf_dict" where
  "leaf_to_dict (Currency c r p) = [(''id'', Some c), (''rate'', Some r), (''plus'', p)]"
| "leaf_to_dict (Category i n p) = [(''id'', Some i), (''name'', n), (''parent_id'', p)]"
| "leaf_to_dict (DeliveryOption c d b) =
     [(''cost'', Some c), (''days'', Some d), (''order_before'', b)]"
| "leaf_to_dict (Offer k el) = map (\<lambda>(a, v). (a, Some v)) (attrib el)"
| "leaf_to_dict (Gift el) = map (\<lambda>(a, v). (a, Some v)) (attrib el)"
| "leaf_to_dict (Promo el) = map (\<lambda>(a, v). (a, Some v)) (attrib el)"

definition leaf_currency_from_xml :: "xml \<Rightarrow> error + leaf" where
  "leaf_currency_from_xml el =
     (case (attrib_get el ''id'', attrib_get el ''rate'') of
        (Some c, Some r) \<Rightarrow> Inr (Currency c r (attrib_get el ''plus''))
      | _ \<Rightarrow> Inl (ValidationError ''currency''))"

definition leaf_category_from_xml :: "xml \<Rightarrow> error + leaf" where
  "leaf_category_from_xml el =
     (case attrib_get el ''id'' of
        Some i \<Rightarrow> Inr (Category i (el_text el) (attrib_get el ''parent_id''))
      | None \<Rightarrow> Inl (ValidationError ''category''))"

definition leaf_option_from_xml :: "xml \<Rightarrow> error + leaf" where
  "leaf_option_from_xml el =
     (case (attrib_get el ''cost'', attrib_get el ''days'') of
        (Some c, Some d) \<Rightarrow> Inr (DeliveryOption c d (attrib_get el ''order_before''))
      | _ \<Rightarrow> Inl (ValidationError ''option''))"

text \<open>
  The tokens of an offer's subtree that follow its \<^verbatim>\<open>start\<close> event: \<open>closing d it\<close>
  finds the \<^verbatim>\<open>end\<close> event at nesting depth \<open>d\<close> and counts the tokens up to it.
\<close>

fun closing :: "nat \<Rightarrow> token list \<Rightarrow> (xml \<times> nat) option" where
  "closing d [] = None"
| "closing d ((Start, el) # it) =
     (case closing (Suc d) it of None \<Rightarrow> None | Some (e, n) \<Rightarrow> Some (e, Suc n))"
| "closing 0 ((End, el) # it) = Some (el, 1)"
| "closing (Suc d) ((End, el) # it) =
     (case closing d it of None \<Rightarrow> None | Some (e, n) \<Rightarrow> Some (e, Suc n))"

definition leaf_offer_from_iterator ::
  "offer_class \<Rightarrow> token list \<Rightarrow> xml \<Rightarrow> error + (leaf \<times> nat)" where
  "leaf_offer_from_iterator k iterator offer_el =
     (case closing 0 iterator of
        None \<Rightarrow> Inl (ParseError ''offer is not closed'')
      | Some (el, n) \<Rightarrow> Inr (Offer k el, n))"

definition leaf_models :: "(leaf, leaf_dict) models" where
  "leaf_models =
     \<lparr>to_xml = leaf_to_xml, to_dict = leaf_to_dict,
      Currency_from_xml = leaf_currency_from_xml,
      Category_from_xml = leaf_category_from_xml,
      Option_from_xml = leaf_option_from_xml,
      Gift_from_xml = (\<lambda>el. Inr (Gift el)),
      Promo_from_xml = (\<lambda>el. Inr (Promo el)),
      Offer_from_xml = (\<lambda>k el. Inr (Offer k el)),
      Offer_from_iterator = leaf_offer_from_iterator\<rparr>"

section \<open>The children of the element \<^verbatim>\<open>Shop.create_xml\<close> builds\<close>

definition simple_child :: "'m shop \<Rightarrow> string \<Rightarrow> xml list" where
  "simple_child s t = (if truthy (getattr s t) then [Element t [] (getattr s t) []] else [])"

definition simple_children :: "'m shop \<Rightarrow> xml list" where
  "simple_children s = concat (map (simple_child s) simple_tags)"

definition optional_wrapper :: "string \<Rightarrow> xml list \<Rightarrow> xml list" where
  "optional_wrapper t cs = (if cs \<noteq> [] then [Element t [] None cs] else [])"

definition enable_auto_discounts_child :: "'m shop \<Rightarrow> xml list" where
  "enable_auto_discounts_child s =
     (if truthy (enable_auto_discounts' s)
      then [Element ''enable_auto_discounts'' [] (enable_auto_discounts' s) []] else [])"

lemma children_XMLSubElement [simp]:
  "children (XMLSubElement p t x cs) = children p @ [Element t [] x cs]"
  by (simp add: XMLSubElement_def append_child_def)

lemma children_add_simple: "children (add_simple s p t) = children p @ simple_child s t"
  by (simp add: add_simple_def simple_child_def Let_def)

lemma children_foldl_add_simple:
  "children (foldl (add_simple s) p ts) = children p @ concat (map (simple_child s) ts)"
  by (induction ts arbitrary: p) (simp_all add: children_add_simple)

lemma children_Shop_create_xml:
  "children (Shop_create_xml M s) =
     simple_children s @
     [Element ''currencies'' [] None (currencies_to_xml M (currencies s)),
      Element ''categories'' [] None (map (to_xml M) (categories s))] @
     optional_wrapper ''delivery-options'' (map (to_xml M) (delivery_options s)) @
     optional_wrapper ''pickup-options'' (map (to_xml M) (pickup_options s)) @
     enable_auto_discounts_child s @
     [Element ''offers'' [] None (map (to_xml M) (offers s))] @
     optional_wrapper ''gifts'' (map (to_xml M) (list_or_empty (gifts s))) @
     optional_wrapper ''promos'' (map (to_xml M) (list_or_empty (promos s)))"
  by (simp add: Shop_create_xml_def Let_def children_foldl_add_simple simple_children_def
      optional_wrapper_def enable_auto_discounts_child_def XMLElement_def)

lemma tag_simple_children: "c \<in> set (simple_children s) \<Longrightarrow> tag c \<in> set simple_tags"
  by (auto simp: simple_children_def simple_child_def split: if_splits)

lemma currencies_to_xml_eq:
  "currencies_to_xml M cs = map (to_xml M) [c. CurrencyObj c \<leftarrow> cs]"
  by (induction M cs rule: currencies_to_xml.induct) simp_all

lemma wrapper_tags_not_simple:
  "''currencies'' \<notin> set simple_tags" "''categories'' \<notin> set simple_tags"
  "''offers'' \<notin> set simple_tags" "''delivery-options'' \<notin> set simple_tags"
  "''pickup-options'' \<notin> set simple_tags" "''gifts'' \<notin> set simple_tags"
  "''promos'' \<notin> set simple_tags" "''enable_auto_discounts'' \<notin> set simple_tags"
  by (simp_all add: simple_tags_def)

lemma tag_optional_wrapper [simp]:
  "t \<in> tag ` set (optional_wrapper t' cs) \<longleftrightarrow> t = t' \<and> cs \<noteq> []"
  by (auto simp: optional_wrapper_def)

lemma tag_enable_auto_discounts_child [simp]:
  "t \<in> tag ` set (enable_auto_discounts_child s) \<longleftrightarrow>
     t = ''enable_auto_discounts'' \<and> truthy (enable_auto_discounts' s)"
  by (auto simp: enable_auto_discounts_child_def)

lemma tag_not_simple: "t \<notin> set simple_tags \<Longrightarrow> t \<notin> tag ` set (simple_children s)"
  using tag_simple_children by blast

lemma tags_Shop_create_xml:
  "tag ` set (children (Shop_create_xml M s)) =
     tag ` set (simple_children s) \<union> {''currencies'', ''categories'', ''offers''} \<union>
     tag ` set (optional_wrapper ''delivery-options'' (map (to_xml M) (delivery_options s))) \<union>
     tag ` set (optional_wrapper ''pickup-options'' (map (to_xml M) (pickup_options s))) \<union>
     tag ` set (enable_auto_discounts_child s) \<union>
     tag ` set (optional_wrapper ''gifts'' (map (to_xml M) (list_or_empty (gifts s)))) \<union>
     tag ` set (optional_wrapper ''promos'' (map (to_xml M) (list_or_empty (promos s))))"
  unfolding children_Shop_create_xml by (simp add: image_Un) blast

section \<open>The claims\<close>

text \<open>A shop with a name, a company and nothing else, for the concrete instances.\<close>

definition unit_shop :: "leaf shop" where
  "unit_shop = \<lparr>name = Some ''n'', company = Some ''c'', url' = None, platform = None,
     version = None, agency = None, email = None, currencies = [], categories = [],
     delivery_options' = None, pickup_options' = None, enable_auto_discounts' = None,
     offers = [], gifts = None, promos = None\<rparr>"

lemma lower_tokens:
  "lower ''yes'' = ''yes''" "lower ''true'' = ''true''" "lower ''1'' = ''1''"
  "lower ''no'' = ''no''" "lower ''false'' = ''false''" "lower ''0'' = ''0''"
  by (simp_all add: lower_def lower_char_def upper_letters_def)

text \<open>
  Claim C7.  Assigning \<^verbatim>\<open>"yes"\<close>, \<^verbatim>\<open>"true"\<close> or \<^verbatim>\<open>"1"\<close> to
  \<^verbatim>\<open>Shop.enable_auto_discounts\<close> stores a value the getter reads as \<^verbatim>\<open>True\<close>;
  \<^verbatim>\<open>"no"\<close>, \<^verbatim>\<open>"false"\<close> or \<^verbatim>\<open>"0"\<close> one it reads as \<^verbatim>\<open>False\<close>; \<^verbatim>\<open>None\<close> stays
  \<^verbatim>\<open>None\<close>; and a string that is none of the tokens raises
  \<^verbatim>\<open>EnableAutoDiscountsValidationError\<close>, whose message lists the allowed tokens.
\<close>

theorem enable_auto_discounts_coercion:
  "(\<forall>v \<in> {''yes'', ''true'', ''1''}.
      enable_auto_discounts_setter s (PStr v) = Inr (s\<lparr>enable_auto_discounts' := Some ''true''\<rparr>))
   \<and> enable_auto_discounts (s\<lparr>enable_auto_discounts' := Some ''true''\<rparr>) = Some True
   \<and> (\<forall>v \<in> {''no'', ''false'', ''0''}.
      enable_auto_discounts_setter s (PStr v) = Inr (s\<lparr>enable_auto_discounts' := Some ''false''\<rparr>))
   \<and> enable_auto_discounts (s\<lparr>enable_auto_discounts' := Some ''false''\<rparr>) = Some False
   \<and> enable_auto_discounts_setter s PNone = Inr (s\<lparr>enable_auto_discounts' := None\<rparr>)
   \<and> enable_auto_discounts (s\<lparr>enable_auto_discounts' := None\<rparr>) = None
   \<and> (\<forall>v. lower v \<notin> set ENABLE_AUTO_DISCOUNTS_CHOICES \<longrightarrow>
        enable_auto_discounts_setter s (PStr v)
          = Inl (EnableAutoDiscountsValidationError enable_auto_discounts_msg))
   \<and> enable_auto_discounts_msg =
       ''enable_auto_discounts should be True, False or str from available values: yes, true, 1, no, false, 0''"
  by (simp add: enable_auto_discounts_setter_def normalized_token_def boolish_def lower_tokens
      TRUE_TOKENS_def FALSE_TOKENS_def ENABLE_AUTO_DISCOUNTS_CHOICES_def enable_auto_discounts_def
      str_to_bool_def enable_auto_discounts_msg_def)

theorem enable_auto_discounts_coercion_witness:
  "enable_auto_discounts_setter unit_shop (PStr ''yes'')
     = Inr (unit_shop\<lparr>enable_auto_discounts' := Some ''true''\<rparr>)
   \<and> enable_auto_discounts_setter unit_shop (PStr ''0'')
     = Inr (unit_shop\<lparr>enable_auto_discounts' := Some ''false''\<rparr>)
   \<and> lower ''err'' \<notin> set ENABLE_AUTO_DISCOUNTS_CHOICES
   \<and> enable_auto_discounts_setter unit_shop (PStr ''err'')
     = Inl (EnableAutoDiscountsValidationError enable_auto_discounts_msg)"
proof -
  have n: "lower ''err'' \<notin> set ENABLE_AUTO_DISCOUNTS_CHOICES"
    by (simp add: lower_def lower_char_def upper_letters_def ENABLE_AUTO_DISCOUNTS_CHOICES_def
        TRUE_TOKENS_def FALSE_TOKENS_def)
  show ?thesis
    using enable_auto_discounts_coercion [of unit_shop] n by simp
qed

text \<open>
  Claim C5.  The setter of \<^verbatim>\<open>url\<close> (lines 80 to 82) stores what it is given and
  checks no length: a url of 513 characters is stored, by the setter and by the
  constructor, where the claim and \<^verbatim>\<open>test_url_validation_error\<close> expect a
  \<^verbatim>\<open>ValidationError\<close>.
\<close>

theorem url_setter_stores_any_length:
  "url (url_setter s (Some (replicate 513 CHR ''a''))) = Some (replicate 513 CHR ''a'')
   \<and> length (replicate 513 CHR ''a'') = 513
   \<and> url (url_setter s (Some (replicate 512 CHR ''a''))) = Some (replicate 512 CHR ''a'')
   \<and> (\<exists>s'. Shop_init n c cur cat off (Some (replicate 513 CHR ''a'')) p v a e dl pk PNone g pr
               = Inr s'
            \<and> url s' = Some (replicate 513 CHR ''a''))"
  by (simp add: url_def url_setter_def Shop_init_def normalized_token_def boolish_def)

text \<open>
  Claim C4.  For every Shop, the element \<^verbatim>\<open>create_xml\<close> returns has the children
  \<^verbatim>\<open>currencies\<close>, \<^verbatim>\<open>categories\<close> and \<^verbatim>\<open>offers\<close>, whatever the lists hold, and has a
  child \<^verbatim>\<open>delivery-options\<close>, \<^verbatim>\<open>pickup-options\<close>, \<^verbatim>\<open>gifts\<close> or \<^verbatim>\<open>promos\<close> exactly
  when the collection of that name is not empty.
\<close>

theorem create_xml_wrappers:
  "''currencies'' \<in> tag ` set (children (Shop_create_xml M s))
   \<and> ''categories'' \<in> tag ` set (children (Shop_create_xml M s))
   \<and> ''offers'' \<in> tag ` set (children (Shop_create_xml M s))
   \<and> (''delivery-options'' \<in> tag ` set (children (Shop_create_xml M s))
        \<longleftrightarrow> delivery_options s \<noteq> [])
   \<and> (''pickup-options'' \<in> tag ` set (children (Shop_create_xml M s))
        \<longleftrightarrow> pickup_options s \<noteq> [])
   \<and> (''gifts'' \<in> tag ` set (children (Shop_create_xml M s))
        \<longleftrightarrow> list_or_empty (gifts s) \<noteq> [])
   \<and> (''promos'' \<in> tag ` set (children (Shop_create_xml M s))
        \<longleftrightarrow> list_or_empty (promos s) \<noteq> [])"
  unfolding tags_Shop_create_xml
  by (simp add: tag_not_simple wrapper_tags_not_simple)

theorem create_xml_wrappers_witness:
  "''currencies'' \<in> tag ` set (children (Shop_create_xml leaf_models unit_shop))
   \<and> ''delivery-options'' \<notin> tag ` set (children (Shop_create_xml leaf_models unit_shop))
   \<and> ''gifts'' \<in> tag ` set (children (Shop_create_xml leaf_models
         (unit_shop\<lparr>gifts := Some [Gift (Element ''gift'' [] None [])]\<rparr>)))"
  using create_xml_wrappers [of leaf_models unit_shop]
    create_xml_wrappers [of leaf_models "unit_shop\<lparr>gifts := Some [Gift (Element ''gift'' [] None [])]\<rparr>"]
  by (simp add: unit_shop_def delivery_options_def list_or_empty_def)

text \<open>
  Claim C9.  For every Shop, also one whose \<^verbatim>\<open>currencies\<close> holds plain strings,
  \<^verbatim>\<open>create_xml\<close> returns an element with one \<^verbatim>\<open>currencies\<close> child, and the children of
  that wrapper are the encodings of the members that are not strings, in order: a
  string member is left out and raises nothing.
\<close>

theorem create_xml_skips_string_currencies:
  "filter (\<lambda>c. tag c = ''currencies'') (children (Shop_create_xml M s))
     = [Element ''currencies'' [] None (map (to_xml M) [c. CurrencyObj c \<leftarrow> currencies s])]"
proof -
  have "filter (\<lambda>c. tag c = ''currencies'') (simple_children s) = []"
    using tag_simple_children [of _ s] wrapper_tags_not_simple(1)
    by (fastforce simp: filter_empty_conv)
  then show ?thesis
    unfolding children_Shop_create_xml
    by (simp add: optional_wrapper_def enable_auto_discounts_child_def currencies_to_xml_eq)
qed

theorem create_xml_skips_string_currencies_witness:
  "filter (\<lambda>c. tag c = ''currencies'')
     (children (Shop_create_xml leaf_models
        (unit_shop\<lparr>currencies := [CurrencyStr ''USD'', CurrencyObj (Currency ''RUR'' ''1'' None)]\<rparr>)))
   = [Element ''currencies'' [] None
        [Element ''currency'' [(''id'', ''RUR''), (''rate'', ''1'')] None []]]"
  using create_xml_skips_string_currencies [of leaf_models
      "unit_shop\<lparr>currencies := [CurrencyStr ''USD'', CurrencyObj (Currency ''RUR'' ''1'' None)]\<rparr>"]
  by (simp add: unit_shop_def leaf_models_def optional_attrib_def)

text \<open>The seven discriminants the claim lists, each with the class it selects.\<close>

definition known_offer_types :: "(string \<times> offer_class) list" where
  "known_offer_types =
     [(''vendor.model'', ArbitraryOffer), (''book'', BookOffer), (''audiobook'', AudioBookOffer),
      (''artist.title'', MusicVideoOffer), (''medicine'', MedicineOffer),
      (''event-ticket'', EventTicketOffer), (''alco'', AlcoholOffer)]"

lemma from_xml_offer_known:
  "(ty, k) \<in> set known_offer_types \<Longrightarrow> attrib_get offer_el ''type'' = Some ty \<Longrightarrow>
   from_xml_offer M offer_el = Offer_from_xml M k offer_el"
  by (auto simp: known_offer_types_def from_xml_offer_def)

lemma from_iterator_offer_known:
  "(ty, k) \<in> set known_offer_types \<Longrightarrow> attrib_get offer_el ''type'' = Some ty \<Longrightarrow>
   from_iterator_offer M it offer_el = Offer_from_iterator M k it offer_el"
  by (auto simp: known_offer_types_def from_iterator_offer_def)

lemma from_xml_offer_unknown:
  "attrib_get offer_el ''type'' = Some ty \<Longrightarrow> ty \<notin> fst ` set known_offer_types \<Longrightarrow>
   from_xml_offer M offer_el = Inl (ParseError (''Got unexpected offer type: '' @ ty))"
  by (simp add: known_offer_types_def from_xml_offer_def)

lemma from_iterator_offer_unknown:
  "attrib_get offer_el ''type'' = Some ty \<Longrightarrow> ty \<notin> fst ` set known_offer_types \<Longrightarrow>
   from_iterator_offer M it offer_el = Inl (ParseError (''Got unexpected offer type: '' @ ty))"
  by (simp add: known_offer_types_def from_iterator_offer_def)

lemma Shop_from_xml_offer_error:
  assumes "from_xml_offer M offer_el = Inl e"
  shows "Shop_from_xml M (Element ''shop'' a x [Element ''offers'' a' x' (offer_el # els)]) = Inl e"
  using assms
  by (simp add: Shop_from_xml_def Shop_from_xml_kwargs_def from_xml_child_def)

lemma Shop_from_iterator_offer_error:
  assumes "from_iterator_offer M it offer_el = Inl e" "tag offer_el = ''offer''"
  shows "Shop_from_iterator M ((Start, Element ''offers'' a x cs) # (Start, offer_el) # it) = Inl e"
  using assms
  by (simp add: Shop_from_iterator_def Shop_from_iterator_kwargs_def from_iterator_round_def)

text \<open>
  Claim C3.  Decoding an offer element, in \<^verbatim>\<open>Shop.from_xml\<close> and in
  \<^verbatim>\<open>Shop.from_iterator\<close> alike: without a \<^verbatim>\<open>type\<close> attribute the simplified class
  decodes it; each of the seven known values selects its class; any other value
  raises \<^verbatim>\<open>ParseError\<close> with the value in its message, and the error is the result
  of the whole decoder.
\<close>

theorem offer_type_dispatch:
  "(attrib_get offer_el ''type'' = None \<longrightarrow>
      from_xml_offer M offer_el = Offer_from_xml M SimplifiedOffer offer_el
      \<and> from_iterator_offer M it offer_el = Offer_from_iterator M SimplifiedOffer it offer_el)
   \<and> (\<forall>ty k. (ty, k) \<in> set known_offer_types \<longrightarrow> attrib_get offer_el ''type'' = Some ty \<longrightarrow>
      from_xml_offer M offer_el = Offer_from_xml M k offer_el
      \<and> from_iterator_offer M it offer_el = Offer_from_iterator M k it offer_el)
   \<and> (\<forall>ty. attrib_get offer_el ''type'' = Some ty \<longrightarrow> ty \<notin> fst ` set known_offer_types \<longrightarrow>
      from_xml_offer M offer_el = Inl (ParseError (''Got unexpected offer type: '' @ ty))
      \<and> from_iterator_offer M it offer_el = Inl (ParseError (''Got unexpected offer type: '' @ ty))
      \<and> Shop_from_xml M (Element ''shop'' a x [Element ''offers'' a' x' (offer_el # els)])
          = Inl (ParseError (''Got unexpected offer type: '' @ ty))
      \<and> (tag offer_el = ''offer'' \<longrightarrow>
          Shop_from_iterator M ((Start, Element ''offers'' a' x' cs) # (Start, offer_el) # it)
            = Inl (ParseError (''Got unexpected offer type: '' @ ty))))"
proof (intro conjI allI impI)
  assume "attrib_get offer_el ''type'' = None"
  then show "from_xml_offer M offer_el = Offer_from_xml M SimplifiedOffer offer_el"
    and "from_iterator_offer M it offer_el = Offer_from_iterator M SimplifiedOffer it offer_el"
    by (simp_all add: from_xml_offer_def from_iterator_offer_def)
next
  fix ty k
  assume "(ty, k) \<in> set known_offer_types" "attrib_get offer_el ''type'' = Some ty"
  then show "from_xml_offer M offer_el = Offer_from_xml M k offer_el"
    and "from_iterator_offer M it offer_el = Offer_from_iterator M k it offer_el"
    by (rule from_xml_offer_known, rule from_iterator_offer_known)
next
  fix ty
  assume u: "attrib_get offer_el ''type'' = Some ty" "ty \<notin> fst ` set known_offer_types"
  show x: "from_xml_offer M offer_el = Inl (ParseError (''Got unexpected offer type: '' @ ty))"
    using u by (rule from_xml_offer_unknown)
  show i: "from_iterator_offer M it offer_el = Inl (ParseError (''Got unexpected offer type: '' @ ty))"
    using u by (rule from_iterator_offer_unknown)
  show "Shop_from_xml M (Element ''shop'' a x [Element ''offers'' a' x' (offer_el # els)])
          = Inl (ParseError (''Got unexpected offer type: '' @ ty))"
    using x by (rule Shop_from_xml_offer_error)
  assume "tag offer_el = ''offer''"
  with i show "Shop_from_iterator M ((Start, Element ''offers'' a' x' cs) # (Start, offer_el) # it)
            = Inl (ParseError (''Got unexpected offer type: '' @ ty))"
    by (rule Shop_from_iterator_offer_error)
qed

definition bogus_offer :: xml where
  "bogus_offer = Element ''offer'' [(''id'', ''1''), (''type'', ''bogus'')] None []"

definition book_offer :: xml where
  "book_offer = Element ''offer'' [(''id'', ''2''), (''type'', ''book'')] None []"

definition plain_offer :: xml where
  "plain_offer = Element ''offer'' [(''id'', ''3'')] None []"

theorem offer_type_dispatch_witness:
  "attrib_get plain_offer ''type'' = None
   \<and> from_xml_offer leaf_models plain_offer = Inr (Offer SimplifiedOffer plain_offer)
   \<and> (''book'', BookOffer) \<in> set known_offer_types
   \<and> attrib_get book_offer ''type'' = Some ''book''
   \<and> from_xml_offer leaf_models book_offer = Inr (Offer BookOffer book_offer)
   \<and> from_iterator_offer leaf_models [(End, book_offer)] book_offer = Inr (Offer BookOffer book_offer, 1)
   \<and> attrib_get bogus_offer ''type'' = Some ''bogus''
   \<and> ''bogus'' \<notin> fst ` set known_offer_types
   \<and> tag bogus_offer = ''offer''
   \<and> Shop_from_xml leaf_models (Element ''shop'' [] None [Element ''offers'' [] None [bogus_offer]])
       = Inl (ParseError ''Got unexpected offer type: bogus'')
   \<and> Shop_from_iterator leaf_models
        [(Start, Element ''offers'' [] None [bogus_offer]), (Start, bogus_offer), (End, bogus_offer),
         (End, Element ''offers'' [] None [bogus_offer])]
       = Inl (ParseError ''Got unexpected offer type: bogus'')"
proof -
  have p: "attrib_get plain_offer ''type'' = None"
    by (simp add: plain_offer_def attrib_get_def)
  have b: "(''book'', BookOffer) \<in> set known_offer_types" "attrib_get book_offer ''type'' = Some ''book''"
    by (simp_all add: known_offer_types_def book_offer_def attrib_get_def)
  have g: "attrib_get bogus_offer ''type'' = Some ''bogus''" "''bogus'' \<notin> fst ` set known_offer_types"
    "tag bogus_offer = ''offer''"
    by (simp_all add: known_offer_types_def bogus_offer_def attrib_get_def)
  show ?thesis
    using p b g
      offer_type_dispatch [of plain_offer leaf_models "[]" "[]" None "[]" None "[]" "[]"]
      offer_type_dispatch [of book_offer leaf_models "[(End, book_offer)]" "[]" None "[]" None "[]" "[]"]
      offer_type_dispatch [of bogus_offer leaf_models
        "[(End, bogus_offer), (End, Element ''offers'' [] None [bogus_offer])]" "[]" None "[]" None "[]" "[bogus_offer]"]
    by (simp add: leaf_models_def leaf_offer_from_iterator_def from_iterator_round_def)
qed

subsection \<open>The date of a Feed\<close>

lemma date_to_store_primary:
  assumes "strptime s DATE_FORMAT = Inr t"
  shows "date_to_store now (Some s) = Inr (strftime t DATE_FORMAT)"
  using assms by (simp add: date_to_store_def is_valid_datetime_def)

lemma date_to_store_fallback:
  assumes "strptime s ALT_DATE_FORMAT = Inr t"
  shows "date_to_store now (Some s) = Inr (strftime t DATE_FORMAT)"
  using assms strptime_alt_not_primary [OF assms]
  by (simp add: date_to_store_def is_valid_datetime_def)

lemma date_to_store_None: "date_to_store now None = Inr (strftime now DATE_FORMAT)"
  by (simp add: date_to_store_def is_valid_datetime_def)

lemma date_to_store_valid:
  assumes "date_to_store now dt = Inr d" "valid_datetime now"
  shows "\<exists>t. valid_datetime t \<and> d = strftime t DATE_FORMAT"
proof (cases dt)
  case None
  then show ?thesis using assms by (auto simp: date_to_store_None)
next
  case (Some s)
  then show ?thesis using assms
    by (auto simp: date_to_store_def is_valid_datetime_def
        split: sum.splits if_splits option.splits dest: strptime_valid)
qed

lemma attrib_get_Feed_create_xml:
  "attrib_get (Feed_create_xml M f) ''date'' = Some (date' f)"
  by (simp add: Feed_create_xml_def attrib_get_def append_child_def XMLElement_def)

text \<open>
  Claim C6.  A Feed given its date as a string in the fallback format
  \<^verbatim>\<open>"%Y-%m-%d %H:%M"\<close> stores the date rendered in the primary format
  \<^verbatim>\<open>"%Y-%m-%d %H:%M:%S"\<close>: the stored string parses under the primary format to the
  same moment, does not parse under the fallback format, differs from the string
  supplied, and is what \<^verbatim>\<open>create_xml\<close> writes as the \<^verbatim>\<open>date\<close> attribute.  The same
  holds for an assignment to \<^verbatim>\<open>date\<close> on an existing Feed.
\<close>

theorem fallback_date_normalized:
  assumes "strptime s ALT_DATE_FORMAT = Inr t"
  shows "\<exists>f. Feed_init now sh (Some s) = Inr f
           \<and> shop f = sh
           \<and> date' f = strftime t DATE_FORMAT
           \<and> strptime (date' f) DATE_FORMAT = Inr t
           \<and> strptime (date' f) ALT_DATE_FORMAT = Inl ValueError
           \<and> date' f \<noteq> s
           \<and> attrib_get (Feed_create_xml M f) ''date'' = Some (strftime t DATE_FORMAT)
           \<and> date_setter now g (Some s) = Inr (g\<lparr>date' := strftime t DATE_FORMAT\<rparr>)"
proof -
  have v: "valid_datetime t" using assms by (rule strptime_valid)
  have d: "date_to_store now (Some s) = Inr (strftime t DATE_FORMAT)"
    using assms by (rule date_to_store_fallback)
  have p: "strptime (strftime t DATE_FORMAT) DATE_FORMAT = Inr t"
    using v by (rule strptime_strftime)
  have a: "strptime (strftime t DATE_FORMAT) ALT_DATE_FORMAT = Inl ValueError"
    using v by (rule strptime_strftime_alt)
  have n: "strftime t DATE_FORMAT \<noteq> s" using a assms by auto
  show ?thesis
    using d p a n by (simp add: date_setter_def Feed_init_def attrib_get_Feed_create_xml)
qed

text \<open>A value of the clock for the concrete instances.\<close>

definition clock :: datetime where
  "clock = \<lparr>year = 2026, month = 11, day = 3, hour = 9, minute = 30, second = 15\<rparr>"

theorem fallback_date_normalized_witness:
  "strptime ''2020-01-05 10:07'' ALT_DATE_FORMAT
     = Inr \<lparr>year = 2020, month = 1, day = 5, hour = 10, minute = 7, second = 0\<rparr>
   \<and> Feed_init clock unit_shop (Some ''2020-01-05 10:07'')
     = Inr \<lparr>shop = unit_shop, date' = ''2020-01-05 10:07:00''\<rparr>
   \<and> attrib_get (Feed_create_xml leaf_models \<lparr>shop = unit_shop, date' = ''2020-01-05 10:07:00''\<rparr>)
        ''date'' = Some ''2020-01-05 10:07:00''"
proof -
  let ?t = "\<lparr>year = 2020, month = 1, day = 5, hour = 10, minute = 7, second = 0\<rparr>"
  have h: "strptime ''2020-01-05 10:07'' ALT_DATE_FORMAT = Inr ?t"
    by code_simp
  have r: "strftime ?t DATE_FORMAT = ''2020-01-05 10:07:00''"
    by code_simp
  obtain f where f: "Feed_init clock unit_shop (Some ''2020-01-05 10:07'') = Inr f"
      "shop f = unit_shop" "date' f = strftime ?t DATE_FORMAT"
      "attrib_get (Feed_create_xml leaf_models f) ''date'' = Some (strftime ?t DATE_FORMAT)"
    using fallback_date_normalized [OF h, of clock unit_shop leaf_models] by blast
  have e: "f = \<lparr>shop = unit_shop, date' = ''2020-01-05 10:07:00''\<rparr>"
    using f(2,3) unfolding r by (cases f) simp
  show ?thesis
    using h f(1,4) unfolding r e by simp
qed

lemma Feed_date_strftime:
  assumes "valid_datetime t" "date' f = strftime t DATE_FORMAT"
  shows "Feed_date f = Inr t"
  using assms by (simp add: Feed_date_def strptime_strftime)

lemma Feed_date_cases:
  "Feed_date f = Inr t \<longleftrightarrow>
     strptime (date' f) DATE_FORMAT = Inr t \<or>
     (strptime (date' f) DATE_FORMAT = Inl ValueError \<and> strptime (date' f) ALT_DATE_FORMAT = Inr t)"
  by (auto simp: Feed_date_def split: sum.splits dest: strptime_error)

text \<open>
  Claim C10.  For a Feed as the constructor builds it, the getter of \<^verbatim>\<open>date\<close>
  parses the stored string (under the primary format, or else under the fallback
  format) and \<^verbatim>\<open>create_dict\<close> puts that datetime under \<^verbatim>\<open>date\<close>, while
  \<^verbatim>\<open>create_xml\<close> writes the stored string itself as the \<^verbatim>\<open>date\<close> attribute: the
  dictionary holds a datetime where the element holds the string it was parsed from.
\<close>

theorem dict_date_parsed_xml_date_raw:
  assumes "Feed_init now sh dt = Inr f" "valid_datetime now" "Shop_to_dict M sh = Inr sd"
  shows "\<exists>t. Feed_date f = Inr t
           \<and> (strptime (date' f) DATE_FORMAT = Inr t \<or>
                (strptime (date' f) DATE_FORMAT = Inl ValueError
                 \<and> strptime (date' f) ALT_DATE_FORMAT = Inr t))
           \<and> Feed_create_dict M f = Inr \<lparr>d_shop = sd, d_date = t\<rparr>
           \<and> attrib_get (Feed_create_xml M f) ''date'' = Some (date' f)"
proof -
  from assms(1) obtain d where d: "date_to_store now dt = Inr d" "f = \<lparr>shop = sh, date' = d\<rparr>"
    by (auto simp: Feed_init_def split: sum.splits)
  from date_to_store_valid [OF d(1) assms(2)] obtain t where
    t: "valid_datetime t" "d = strftime t DATE_FORMAT" by blast
  have g: "Feed_date f = Inr t"
    using t d(2) by (simp add: Feed_date_strftime)
  have c: "Feed_create_dict M f = Inr \<lparr>d_shop = sd, d_date = t\<rparr>"
    using g assms(3) d(2) by (simp add: Feed_create_dict_def)
  show ?thesis
    using g c Feed_date_cases [of f t] attrib_get_Feed_create_xml [of M f] by blast
qed

theorem dict_date_parsed_xml_date_raw_witness:
  "Feed_init clock unit_shop None = Inr \<lparr>shop = unit_shop, date' = ''2026-11-03 09:30:15''\<rparr>
   \<and> valid_datetime clock
   \<and> (\<exists>sd. Shop_to_dict leaf_models unit_shop = Inr sd
        \<and> Feed_create_dict leaf_models \<lparr>shop = unit_shop, date' = ''2026-11-03 09:30:15''\<rparr>
            = Inr \<lparr>d_shop = sd, d_date = clock\<rparr>)
   \<and> attrib_get (Feed_create_xml leaf_models \<lparr>shop = unit_shop, date' = ''2026-11-03 09:30:15''\<rparr>)
        ''date'' = Some ''2026-11-03 09:30:15''"
proof -
  let ?f = "\<lparr>shop = unit_shop, date' = ''2026-11-03 09:30:15''\<rparr>"
  have i: "Feed_init clock unit_shop None = Inr ?f"
    by code_simp
  have v: "valid_datetime clock"
    by code_simp
  obtain sd where sd: "Shop_to_dict leaf_models unit_shop = Inr sd"
    by (simp add: Shop_to_dict_def Shop_create_dict_def unit_shop_def)
  have p: "strptime ''2026-11-03 09:30:15'' DATE_FORMAT = Inr clock"
    by code_simp
  obtain t where t: "Feed_date ?f = Inr t"
      "Feed_create_dict leaf_models ?f = Inr \<lparr>d_shop = sd, d_date = t\<rparr>"
      "attrib_get (Feed_create_xml leaf_models ?f) ''date'' = Some (date' ?f)"
    using dict_date_parsed_xml_date_raw [OF i v sd] by blast
  have "t = clock" using t(1) p by (simp add: Feed_date_def)
  then show ?thesis using i v sd t by simp
qed

subsection \<open>What the decoders hand to the constructor\<close>

lemma wrapper_loop_set:
  "wrapper_loop f w acc iterator = Inr (xs, rest) \<Longrightarrow> set rest \<subseteq> set iterator"
  by (induction f w acc iterator rule: wrapper_loop.induct)
     (auto split: if_splits sum.splits)

lemma offers_loop_set:
  "offers_loop M acc iterator = Inr (xs, rest) \<Longrightarrow> set rest \<subseteq> set iterator"
proof (induction M acc iterator rule: offers_loop.induct)
  case (1 M acc)
  then show ?case by simp
next
  case (2 M acc event offer_el iterator)
  show ?case
  proof (cases "event = End \<and> tag offer_el = ''offers''")
    case True
    then show ?thesis using "2.prems" by auto
  next
    case notend: False
    show ?thesis
    proof (cases "event = Start \<and> tag offer_el = ''offer''")
      case True
      with notend "2.prems" obtain offer n where
        o: "from_iterator_offer M iterator offer_el = Inr (offer, n)"
          "offers_loop M (acc @ [offer]) (drop n iterator) = Inr (xs, rest)"
        by (auto split: sum.splits prod.splits)
      have "set rest \<subseteq> set (drop n iterator)"
        using "2.IH"(1) [OF notend True o(1) refl o(2)] .
      then show ?thesis using set_drop_subset [of n iterator] by auto
    next
      case False
      with notend "2.prems" have "offers_loop M acc iterator = Inr (xs, rest)" by auto
      then show ?thesis using "2.IH"(2) [OF notend False] by auto
    qed
  qed
qed

lemma pair_loop_set:
  "pair_loop event acc iterator = Inr (xs, rest) \<Longrightarrow> set rest \<subseteq> set iterator"
  by (induction event acc iterator rule: pair_loop.induct)
     (auto split: if_splits)

lemma from_iterator_round_set:
  "from_iterator_round M kwargs event el iterator = Inr (kwargs', rest) \<Longrightarrow>
   set rest \<subseteq> set iterator"
  unfolding from_iterator_round_def
  by (auto split: if_splits sum.splits prod.splits
      dest!: wrapper_loop_set offers_loop_set pair_loop_set)

lemma from_iterator_round_currencies:
  "from_iterator_round M kwargs event el iterator = Inr (kwargs', rest) \<Longrightarrow>
   tag el \<noteq> ''currencies'' \<Longrightarrow> kwargs' ''currencies'' = kwargs ''currencies''"
  unfolding from_iterator_round_def
  by (auto split: if_splits sum.splits prod.splits)

lemma from_xml_child_currencies:
  "from_xml_child M kwargs el = Inr kwargs' \<Longrightarrow>
   tag el \<noteq> ''currencies'' \<Longrightarrow> kwargs' ''currencies'' = kwargs ''currencies''"
  unfolding from_xml_child_def
  by (auto split: if_splits sum.splits)

lemma from_xml_loop_currencies:
  "from_xml_loop M kw els = Inr kw' \<Longrightarrow> \<forall>c \<in> set els. tag c \<noteq> ''currencies'' \<Longrightarrow>
   kw' ''currencies'' = kw ''currencies''"
proof (induction els arbitrary: kw)
  case Nil
  then show ?case by simp
next
  case (Cons el els)
  from Cons.prems(1) obtain kw1 where k: "from_xml_child M kw el = Inr kw1"
      "from_xml_loop M kw1 els = Inr kw'"
    by (auto split: sum.splits)
  have "kw1 ''currencies'' = kw ''currencies''"
    using from_xml_child_currencies [OF k(1)] Cons.prems(2) by simp
  moreover have "kw' ''currencies'' = kw1 ''currencies''"
    using Cons.IH [OF k(2)] Cons.prems(2) by simp
  ultimately show ?case by simp
qed

lemma from_iterator_loop_currencies:
  "from_iterator_loop M kw it = Inr kw' \<Longrightarrow> \<forall>(ev, el) \<in> set it. tag el \<noteq> ''currencies'' \<Longrightarrow>
   kw' ''currencies'' = kw ''currencies''"
proof (induction M kw it rule: from_iterator_loop.induct)
  case (1 M kwargs)
  then show ?case by simp
next
  case (2 M kwargs event el iterator)
  from "2.prems"(1) obtain kw1 rest where
    k: "from_iterator_round M kwargs event el iterator = Inr (kw1, rest)"
       "from_iterator_loop M kw1 rest = Inr kw'"
    by (auto split: sum.splits prod.splits)
  have t: "tag el \<noteq> ''currencies''" using "2.prems"(2) by auto
  have "set rest \<subseteq> set iterator" using k(1) by (rule from_iterator_round_set)
  then have r: "\<forall>(ev, el) \<in> set rest. tag el \<noteq> ''currencies''"
    using "2.prems"(2) by auto
  have "kw' ''currencies'' = kw1 ''currencies''"
    using "2.IH" [OF k(1) refl k(2) r] .
  then show ?case using from_iterator_round_currencies [OF k(1) t] by simp
qed

lemma dom_filter_args: "dom (filter_args kw) \<subseteq> set Shop_init_args"
  by (auto simp: filter_args_def dom_def split: if_splits)

lemma filter_args_currencies: "filter_args kw ''currencies'' = kw ''currencies''"
  by (simp add: filter_args_def Shop_init_args_def)

lemma default_currencies_present: "default_currencies kw ''currencies'' \<noteq> None"
  by (simp add: default_currencies_def)

lemma default_currencies_absent:
  "kw ''currencies'' = None \<Longrightarrow> default_currencies kw ''currencies'' = Some (VList [])"
  by (simp add: default_currencies_def)

lemma currencies_is_arg: "''currencies'' \<in> set Shop_init_args"
  by (simp add: Shop_init_args_def)

lemma filter_args_foreign:
  assumes "t \<notin> set Shop_init_args"
  shows "filter_args (default_currencies (kw(t \<mapsto> v))) = filter_args (default_currencies kw)"
proof
  fix k
  have c: "t \<noteq> ''currencies''" using assms currencies_is_arg by metis
  show "filter_args (default_currencies (kw(t \<mapsto> v))) k = filter_args (default_currencies kw) k"
  proof (cases "k \<in> set Shop_init_args")
    case True
    then have "k \<noteq> t" using assms by metis
    then show ?thesis using c True
      by (simp add: filter_args_def default_currencies_def)
  next
    case False
    then show ?thesis by (simp add: filter_args_def)
  qed
qed

text \<open>The tags the decoders read as wrappers of a collection.\<close>

definition wrapper_tags :: "string list" where
  "wrapper_tags = [''currencies'', ''categories'', ''delivery-options'', ''pickup-options'',
     ''offers'', ''gifts'', ''promos'']"

lemma from_xml_child_foreign:
  "tag c \<notin> set wrapper_tags \<Longrightarrow>
   from_xml_child M kw c = Inr (kw(tag c \<mapsto> VText (el_text c)))"
  by (simp add: wrapper_tags_def from_xml_child_def)

lemma from_iterator_round_End:
  "tag el \<noteq> ''pickup-options'' \<Longrightarrow>
   from_iterator_round M kw End el it = Inr (kw(tag el \<mapsto> VText (el_text el)), it)"
  by (simp add: from_iterator_round_def)

lemma Shop_from_xml_kwargs_props:
  assumes "Shop_from_xml_kwargs M shop_el = Inr kw"
  shows "dom kw \<subseteq> set Shop_init_args" "kw ''currencies'' \<noteq> None"
    "\<forall>c \<in> set (children shop_el). tag c \<noteq> ''currencies'' \<Longrightarrow> kw ''currencies'' = Some (VList [])"
proof -
  from assms obtain kw0 where k: "from_xml_loop M Map.empty (children shop_el) = Inr kw0"
      "kw = filter_args (default_currencies kw0)"
    by (auto simp: Shop_from_xml_kwargs_def split: sum.splits)
  show "dom kw \<subseteq> set Shop_init_args" unfolding k(2) by (rule dom_filter_args)
  show "kw ''currencies'' \<noteq> None"
    unfolding k(2) filter_args_currencies by (rule default_currencies_present)
  assume "\<forall>c \<in> set (children shop_el). tag c \<noteq> ''currencies''"
  then have "kw0 ''currencies'' = None"
    using from_xml_loop_currencies [OF k(1)] by simp
  then show "kw ''currencies'' = Some (VList [])"
    unfolding k(2) filter_args_currencies by (rule default_currencies_absent)
qed

lemma Shop_from_iterator_kwargs_props:
  assumes "Shop_from_iterator_kwargs M it = Inr kw"
  shows "dom kw \<subseteq> set Shop_init_args" "kw ''currencies'' \<noteq> None"
    "\<forall>(ev, el) \<in> set it. tag el \<noteq> ''currencies'' \<Longrightarrow> kw ''currencies'' = Some (VList [])"
proof -
  from assms obtain kw0 where k: "from_iterator_loop M Map.empty it = Inr kw0"
      "kw = filter_args (default_currencies kw0)"
    by (auto simp: Shop_from_iterator_kwargs_def split: sum.splits)
  show "dom kw \<subseteq> set Shop_init_args" unfolding k(2) by (rule dom_filter_args)
  show "kw ''currencies'' \<noteq> None"
    unfolding k(2) filter_args_currencies by (rule default_currencies_present)
  assume "\<forall>(ev, el) \<in> set it. tag el \<noteq> ''currencies''"
  then have "kw0 ''currencies'' = None"
    using from_iterator_loop_currencies [OF k(1)] by simp
  then show "kw ''currencies'' = Some (VList [])"
    unfolding k(2) filter_args_currencies by (rule default_currencies_absent)
qed

text \<open>
  Claim C8.  The dictionary \<^verbatim>\<open>Shop.from_xml\<close> passes to the constructor, and likewise
  the one \<^verbatim>\<open>Shop.from_iterator\<close> passes, has only names of the constructor's
  parameters as keys and always has \<^verbatim>\<open>currencies\<close>, with the empty list when the
  document (the token stream) has no \<^verbatim>\<open>currencies\<close> element.  A child whose tag is no
  wrapper tag is collected under its tag without an error, and a key that is no
  parameter name makes no difference to what the constructor gets.
\<close>

theorem constructor_gets_only_parameters:
  "(Shop_from_xml_kwargs M shop_el = Inr kw \<longrightarrow>
      dom kw \<subseteq> set Shop_init_args \<and> kw ''currencies'' \<noteq> None
      \<and> ((\<forall>c \<in> set (children shop_el). tag c \<noteq> ''currencies'') \<longrightarrow>
           kw ''currencies'' = Some (VList [])))
   \<and> (Shop_from_iterator_kwargs M it = Inr kw' \<longrightarrow>
      dom kw' \<subseteq> set Shop_init_args \<and> kw' ''currencies'' \<noteq> None
      \<and> ((\<forall>(ev, el) \<in> set it. tag el \<noteq> ''currencies'') \<longrightarrow>
           kw' ''currencies'' = Some (VList [])))
   \<and> Shop_from_xml M shop_el =
       (case Shop_from_xml_kwargs M shop_el of Inl e \<Rightarrow> Inl e | Inr k \<Rightarrow> Shop_of_kwargs k)
   \<and> Shop_from_iterator M it =
       (case Shop_from_iterator_kwargs M it of Inl e \<Rightarrow> Inl e | Inr k \<Rightarrow> Shop_of_kwargs k)
   \<and> (tag c \<notin> set wrapper_tags \<longrightarrow>
        from_xml_child M kw0 c = Inr (kw0(tag c \<mapsto> VText (el_text c))))
   \<and> (tag c \<noteq> ''pickup-options'' \<longrightarrow>
        from_iterator_round M kw0 End c it0 = Inr (kw0(tag c \<mapsto> VText (el_text c)), it0))
   \<and> (t \<notin> set Shop_init_args \<longrightarrow>
        filter_args (default_currencies (kw0(t \<mapsto> v))) = filter_args (default_currencies kw0))"
  using Shop_from_xml_kwargs_props [of M shop_el kw] Shop_from_iterator_kwargs_props [of M it kw']
    from_xml_child_foreign [of c M kw0] from_iterator_round_End [of c M kw0 it0]
    filter_args_foreign [of t kw0 v]
  by (simp add: Shop_from_xml_def Shop_from_iterator_def)

text \<open>A shop document with a foreign child and no \<^verbatim>\<open>currencies\<close> element.\<close>

definition foreign_doc :: xml where
  "foreign_doc = Element ''shop'' [] None
     [Element ''name'' [] (Some ''n'') [],
      Element ''company'' [] (Some ''c'') [],
      Element ''foo'' [] (Some ''bar'') [],
      Element ''categories'' [] None [],
      Element ''offers'' [] None []]"

theorem constructor_gets_only_parameters_witness:
  "(\<exists>kw. Shop_from_xml_kwargs leaf_models foreign_doc = Inr kw
         \<and> kw ''foo'' = None \<and> kw ''currencies'' = Some (VList [])
         \<and> kw ''name'' = Some (VText (Some ''n'')))
   \<and> (\<exists>kw. Shop_from_iterator_kwargs leaf_models (iterparse foreign_doc) = Inr kw
         \<and> kw ''foo'' = None \<and> kw ''shop'' = None \<and> kw ''currencies'' = Some (VList [])
         \<and> kw ''name'' = Some (VText (Some ''n'')))"
proof -
  obtain kw where kw: "Shop_from_xml_kwargs leaf_models foreign_doc = Inr kw"
      "kw ''name'' = Some (VText (Some ''n''))"
    by (simp add: Shop_from_xml_kwargs_def foreign_doc_def from_xml_child_def leaf_models_def
        filter_args_def default_currencies_def Shop_init_args_def)
  obtain kw' where kw': "Shop_from_iterator_kwargs leaf_models (iterparse foreign_doc) = Inr kw'"
      "kw' ''name'' = Some (VText (Some ''n''))"
    by (simp add: Shop_from_iterator_kwargs_def foreign_doc_def from_iterator_round_def
        leaf_models_def filter_args_def default_currencies_def Shop_init_args_def)
  have c: "\<forall>c \<in> set (children foreign_doc). tag c \<noteq> ''currencies''"
    by (simp add: foreign_doc_def)
  have c': "\<forall>(ev, el) \<in> set (iterparse foreign_doc). tag el \<noteq> ''currencies''"
    by (simp add: foreign_doc_def)
  have n: "''foo'' \<notin> set Shop_init_args" "''shop'' \<notin> set Shop_init_args"
    by (simp_all add: Shop_init_args_def)
  have "dom kw \<subseteq> set Shop_init_args" "kw ''currencies'' = Some (VList [])"
    using constructor_gets_only_parameters [where M = leaf_models and shop_el = foreign_doc and kw = kw]
      kw(1) c by simp_all
  moreover have "dom kw' \<subseteq> set Shop_init_args" "kw' ''currencies'' = Some (VList [])"
    using constructor_gets_only_parameters [where M = leaf_models and it = "iterparse foreign_doc" and kw' = kw']
      kw'(1) c' by simp_all
  ultimately show ?thesis using kw kw' n by (auto simp: dom_def subset_iff)
qed

text \<open>A shop document with a gift and a promo.\<close>

definition gift_doc :: xml where
  "gift_doc = Element ''shop'' [] None
     [Element ''name'' [] (Some ''n'') [],
      Element ''company'' [] (Some ''c'') [],
      Element ''currencies'' [] None [],
      Element ''categories'' [] None [],
      Element ''offers'' [] None [],
      Element ''gifts'' [] None [Element ''gift'' [(''id'', ''g1'')] None []],
      Element ''promos'' [] None [Element ''promo'' [(''id'', ''p1'')] None []]]"


lemma gift_doc_tree:
  "Shop_from_xml leaf_models gift_doc
     = Inr (unit_shop\<lparr>gifts := Some [Gift (Element ''gift'' [(''id'', ''g1'')] None [])],
                      promos := Some [Promo (Element ''promo'' [(''id'', ''p1'')] None [])]\<rparr>)"
  by (simp add: Shop_from_xml_def Shop_from_xml_kwargs_def gift_doc_def from_xml_child_def
      leaf_models_def filter_args_def default_currencies_def Shop_init_args_def
      Shop_of_kwargs_def required_text_def required_list_def optional_text_def optional_list_def
      Shop_init_def normalized_token_def boolish_def pyval_of_text_def unit_shop_def)

lemma gift_doc_stream:
  "Shop_from_iterator leaf_models (iterparse gift_doc) = Inr unit_shop"
  by (simp add: Shop_from_iterator_def Shop_from_iterator_kwargs_def gift_doc_def
      from_iterator_round_def
      leaf_models_def filter_args_def default_currencies_def Shop_init_args_def
      Shop_of_kwargs_def required_text_def required_list_def optional_text_def optional_list_def
      Shop_init_def normalized_token_def boolish_def pyval_of_text_def unit_shop_def)

text \<open>
  Claim C2.  On the document \<open>gift_doc\<close> the two decoders disagree: the tree decoder
  returns a Shop with the gift and the promo, the streaming decoder, fed the token
  sequence of the same document, returns a Shop with neither, and the dictionaries
  of the two Shops differ.  The loop of the \<^verbatim>\<open>gifts\<close> branch never sees an \<^verbatim>\<open>end\<close>
  event and runs the iterator out.
\<close>

theorem streaming_loses_gifts_and_promos:
  "Shop_from_xml leaf_models gift_doc
     = Inr (unit_shop\<lparr>gifts := Some [Gift (Element ''gift'' [(''id'', ''g1'')] None [])],
                      promos := Some [Promo (Element ''promo'' [(''id'', ''p1'')] None [])]\<rparr>)
   \<and> Shop_from_iterator leaf_models (iterparse gift_doc) = Inr unit_shop
   \<and> Shop_to_dict leaf_models
        (unit_shop\<lparr>gifts := Some [Gift (Element ''gift'' [(''id'', ''g1'')] None [])],
                   promos := Some [Promo (Element ''promo'' [(''id'', ''p1'')] None [])]\<rparr>)
       \<noteq> Shop_to_dict leaf_models unit_shop"
  using gift_doc_tree gift_doc_stream
  by (simp add: Shop_to_dict_def Shop_create_dict_def unit_shop_def list_or_empty_def leaf_models_def)

section \<open>Decoding the element \<^verbatim>\<open>create_xml\<close> built\<close>

lemma from_xml_loop_append:
  "from_xml_loop M kw (xs @ ys) =
     (case from_xml_loop M kw xs of Inl e \<Rightarrow> Inl e | Inr kw1 \<Rightarrow> from_xml_loop M kw1 ys)"
  by (induction xs arbitrary: kw) (auto split: sum.splits)

text \<open>The shape of the dictionary after a conditional assignment.\<close>

definition put_text :: "string \<Rightarrow> string option \<Rightarrow> 'm kwargs \<Rightarrow> 'm kwargs" where
  "put_text k v kw = (if truthy v then kw(k \<mapsto> VText v) else kw)"

definition put_list :: "string \<Rightarrow> 'm list \<Rightarrow> 'm kwargs \<Rightarrow> 'm kwargs" where
  "put_list k l kw = (if l \<noteq> [] then kw(k \<mapsto> VList l) else kw)"

lemma put_text_apply:
  "put_text k v kw k' = (if k' = k \<and> truthy v then Some (VText v) else kw k')"
  by (simp add: put_text_def)

lemma put_list_apply:
  "put_list k l kw k' = (if k' = k \<and> l \<noteq> [] then Some (VList l) else kw k')"
  by (simp add: put_list_def)

definition simple_kwargs :: "'m shop \<Rightarrow> string list \<Rightarrow> 'm kwargs \<Rightarrow> 'm kwargs" where
  "simple_kwargs s ts kw = foldl (\<lambda>kw t. put_text t (getattr s t) kw) kw ts"

lemma simple_kwargs_apply:
  "simple_kwargs s ts kw k =
     (if k \<in> set ts \<and> truthy (getattr s k) then Some (VText (getattr s k)) else kw k)"
  unfolding simple_kwargs_def
  by (induction ts arbitrary: kw) (auto simp: put_text_apply)

lemma simple_not_wrapper: "t \<in> set simple_tags \<Longrightarrow> t \<notin> set wrapper_tags"
  by (auto simp: simple_tags_def wrapper_tags_def)

lemma from_xml_loop_simple_child:
  assumes "t \<in> set simple_tags"
  shows "from_xml_loop M kw (simple_child s t) = Inr (put_text t (getattr s t) kw)"
  using from_xml_child_foreign [of "Element t [] (getattr s t) []" M kw] simple_not_wrapper [OF assms]
  by (simp add: simple_child_def put_text_def)

lemma from_xml_loop_simple_tags:
  assumes "set ts \<subseteq> set simple_tags"
  shows "from_xml_loop M kw (concat (map (simple_child s) ts)) = Inr (simple_kwargs s ts kw)"
  using assms
proof (induction ts arbitrary: kw)
  case Nil
  then show ?case by (simp add: simple_kwargs_def)
next
  case (Cons t ts)
  then have t: "t \<in> set simple_tags" and ts: "set ts \<subseteq> set simple_tags" by auto
  show ?case
    using from_xml_loop_simple_child [OF t, of M kw s] Cons.IH [OF ts]
    by (simp add: from_xml_loop_append simple_kwargs_def)
qed

lemma from_xml_loop_simple_children:
  "from_xml_loop M kw (simple_children s) = Inr (simple_kwargs s simple_tags kw)"
  unfolding simple_children_def by (rule from_xml_loop_simple_tags) simp

lemma from_xml_each_roundtrip:
  assumes "\<forall>x \<in> set xs. \<exists>y. f (to_xml M x) = Inr y \<and> to_dict M y = to_dict M x"
  shows "\<exists>ys. from_xml_each f (map (to_xml M) xs) = Inr ys
           \<and> map (to_dict M) ys = map (to_dict M) xs"
  using assms
proof (induction xs)
  case Nil
  then show ?case by simp
next
  case (Cons x xs)
  then obtain y ys where "f (to_xml M x) = Inr y" "to_dict M y = to_dict M x"
    "from_xml_each f (map (to_xml M) xs) = Inr ys" "map (to_dict M) ys = map (to_dict M) xs"
    by auto
  then show ?case by simp
qed

lemma from_xml_loop_ead:
  "from_xml_loop M kw (enable_auto_discounts_child s)
     = Inr (put_text ''enable_auto_discounts'' (enable_auto_discounts' s) kw)"
  by (simp add: enable_auto_discounts_child_def put_text_def from_xml_child_def)

lemma from_xml_loop_wrappers:
  "from_xml_each (Currency_from_xml M) cs = Inr ys \<Longrightarrow>
     from_xml_loop M kw [Element ''currencies'' [] None cs] = Inr (kw(''currencies'' \<mapsto> VList ys))"
  "from_xml_each (Category_from_xml M) cs = Inr ys \<Longrightarrow>
     from_xml_loop M kw [Element ''categories'' [] None cs] = Inr (kw(''categories'' \<mapsto> VList ys))"
  "from_xml_each (from_xml_offer M) cs = Inr ys \<Longrightarrow>
     from_xml_loop M kw [Element ''offers'' [] None cs] = Inr (kw(''offers'' \<mapsto> VList ys))"
  by (simp_all add: from_xml_child_def)

lemma from_xml_loop_optional_wrappers:
  "from_xml_each (Option_from_xml M) cs = Inr ys \<Longrightarrow> (ys = [] \<longleftrightarrow> cs = []) \<Longrightarrow>
     from_xml_loop M kw (optional_wrapper ''delivery-options'' cs)
       = Inr (put_list ''delivery_options'' ys kw)"
  "from_xml_each (Option_from_xml M) cs = Inr ys \<Longrightarrow> (ys = [] \<longleftrightarrow> cs = []) \<Longrightarrow>
     from_xml_loop M kw (optional_wrapper ''pickup-options'' cs)
       = Inr (put_list ''pickup_options'' ys kw)"
  "from_xml_each (Gift_from_xml M) cs = Inr ys \<Longrightarrow> (ys = [] \<longleftrightarrow> cs = []) \<Longrightarrow>
     from_xml_loop M kw (optional_wrapper ''gifts'' cs) = Inr (put_list ''gifts'' ys kw)"
  "from_xml_each (Promo_from_xml M) cs = Inr ys \<Longrightarrow> (ys = [] \<longleftrightarrow> cs = []) \<Longrightarrow>
     from_xml_loop M kw (optional_wrapper ''promos'' cs) = Inr (put_list ''promos'' ys kw)"
  by (simp_all add: from_xml_child_def optional_wrapper_def put_list_def)

text \<open>
  The dictionary \<^verbatim>\<open>from_xml\<close> has collected at the end of the element that
  \<^verbatim>\<open>create_xml\<close> built for \<open>s\<close>, given the lists the wrappers decode to.
\<close>

definition decoded_kwargs ::
  "'m shop \<Rightarrow> 'm list \<Rightarrow> 'm list \<Rightarrow> 'm list \<Rightarrow> 'm list \<Rightarrow> 'm list \<Rightarrow> 'm list \<Rightarrow> 'm list \<Rightarrow>
   'm kwargs" where
  "decoded_kwargs s cur cat dl pk off g p =
     put_list ''promos'' p
       (put_list ''gifts'' g
         ((put_text ''enable_auto_discounts'' (enable_auto_discounts' s)
            (put_list ''pickup_options'' pk
              (put_list ''delivery_options'' dl
                ((simple_kwargs s simple_tags Map.empty)
                   (''currencies'' \<mapsto> VList cur, ''categories'' \<mapsto> VList cat)))))
          (''offers'' \<mapsto> VList off)))"

lemma from_xml_loop_create_xml:
  assumes "from_xml_each (Currency_from_xml M) (currencies_to_xml M (currencies s)) = Inr cur"
    and "from_xml_each (Category_from_xml M) (map (to_xml M) (categories s)) = Inr cat"
    and "from_xml_each (Option_from_xml M) (map (to_xml M) (delivery_options s)) = Inr dl"
    and "from_xml_each (Option_from_xml M) (map (to_xml M) (pickup_options s)) = Inr pk"
    and "from_xml_each (from_xml_offer M) (map (to_xml M) (offers s)) = Inr off"
    and "from_xml_each (Gift_from_xml M) (map (to_xml M) (list_or_empty (gifts s))) = Inr g"
    and "from_xml_each (Promo_from_xml M) (map (to_xml M) (list_or_empty (promos s))) = Inr p"
    and "dl = [] \<longleftrightarrow> delivery_options s = []" "pk = [] \<longleftrightarrow> pickup_options s = []"
    and "g = [] \<longleftrightarrow> list_or_empty (gifts s) = []" "p = [] \<longleftrightarrow> list_or_empty (promos s) = []"
  shows "from_xml_loop M Map.empty (children (Shop_create_xml M s))
           = Inr (decoded_kwargs s cur cat dl pk off g p)"
proof -
  note w = from_xml_loop_wrappers(1) [OF assms(1)] from_xml_loop_wrappers(2) [OF assms(2)]
    from_xml_loop_wrappers(3) [OF assms(5)]
  have o: "\<And>kw. from_xml_loop M kw (optional_wrapper ''delivery-options''
               (map (to_xml M) (delivery_options s))) = Inr (put_list ''delivery_options'' dl kw)"
    "\<And>kw. from_xml_loop M kw (optional_wrapper ''pickup-options''
               (map (to_xml M) (pickup_options s))) = Inr (put_list ''pickup_options'' pk kw)"
    "\<And>kw. from_xml_loop M kw (optional_wrapper ''gifts''
               (map (to_xml M) (list_or_empty (gifts s)))) = Inr (put_list ''gifts'' g kw)"
    "\<And>kw. from_xml_loop M kw (optional_wrapper ''promos''
               (map (to_xml M) (list_or_empty (promos s)))) = Inr (put_list ''promos'' p kw)"
    using assms(3,4,6-11) by (simp_all add: from_xml_loop_optional_wrappers)
  have c: "\<And>kw x xs. from_xml_loop M kw (x # xs) =
      (case from_xml_loop M kw [x] of Inl e \<Rightarrow> Inl e | Inr kw1 \<Rightarrow> from_xml_loop M kw1 xs)"
    by (simp split: sum.splits)
  show ?thesis
    unfolding children_Shop_create_xml decoded_kwargs_def
    apply (simp only: from_xml_loop_append from_xml_loop_simple_children sum.case append.simps)
    apply (subst c, simp only: w sum.case)
    apply (subst c, simp only: w sum.case)
    apply (simp only: from_xml_loop_append o from_xml_loop_ead sum.case append.simps)
    apply (subst c, simp only: w sum.case)
    apply (simp only: from_xml_loop_append o sum.case from_xml_loop.simps)
    done
qed

lemma simple_members:
  "''name'' \<in> set simple_tags" "''company'' \<in> set simple_tags" "''url'' \<in> set simple_tags"
  "''platform'' \<in> set simple_tags" "''version'' \<in> set simple_tags"
  "''agency'' \<in> set simple_tags" "''email'' \<in> set simple_tags"
  by (simp_all add: simple_tags_def)

lemma getattr_simps:
  "getattr s ''name'' = name s" "getattr s ''company'' = company s" "getattr s ''url'' = url s"
  "getattr s ''platform'' = platform s" "getattr s ''version'' = version s"
  "getattr s ''agency'' = agency s" "getattr s ''email'' = email s"
  by (simp_all add: getattr_def)

lemma args_not_simple:
  "''delivery_options'' \<notin> set simple_tags" "''pickup_options'' \<notin> set simple_tags"
  by (simp_all add: simple_tags_def)

lemma decoded_kwargs_text:
  "decoded_kwargs s cur cat dl pk off g p ''name''
     = (if truthy (name s) then Some (VText (name s)) else None)"
  "decoded_kwargs s cur cat dl pk off g p ''company''
     = (if truthy (company s) then Some (VText (company s)) else None)"
  "decoded_kwargs s cur cat dl pk off g p ''url''
     = (if truthy (url s) then Some (VText (url s)) else None)"
  "decoded_kwargs s cur cat dl pk off g p ''platform''
     = (if truthy (platform s) then Some (VText (platform s)) else None)"
  "decoded_kwargs s cur cat dl pk off g p ''version''
     = (if truthy (version s) then Some (VText (version s)) else None)"
  "decoded_kwargs s cur cat dl pk off g p ''agency''
     = (if truthy (agency s) then Some (VText (agency s)) else None)"
  "decoded_kwargs s cur cat dl pk off g p ''email''
     = (if truthy (email s) then Some (VText (email s)) else None)"
  unfolding decoded_kwargs_def
  by (simp_all add: put_list_apply put_text_apply simple_kwargs_apply simple_members getattr_simps)

lemma decoded_kwargs_lists:
  "decoded_kwargs s cur cat dl pk off g p ''currencies'' = Some (VList cur)"
  "decoded_kwargs s cur cat dl pk off g p ''categories'' = Some (VList cat)"
  "decoded_kwargs s cur cat dl pk off g p ''offers'' = Some (VList off)"
  "decoded_kwargs s cur cat dl pk off g p ''delivery_options''
     = (if dl \<noteq> [] then Some (VList dl) else None)"
  "decoded_kwargs s cur cat dl pk off g p ''pickup_options''
     = (if pk \<noteq> [] then Some (VList pk) else None)"
  "decoded_kwargs s cur cat dl pk off g p ''gifts'' = (if g \<noteq> [] then Some (VList g) else None)"
  "decoded_kwargs s cur cat dl pk off g p ''promos'' = (if p \<noteq> [] then Some (VList p) else None)"
  "decoded_kwargs s cur cat dl pk off g p ''enable_auto_discounts''
     = (if truthy (enable_auto_discounts' s) then Some (VText (enable_auto_discounts' s)) else None)"
  unfolding decoded_kwargs_def
  by (simp_all add: put_list_apply put_text_apply simple_kwargs_apply wrapper_tags_not_simple
      args_not_simple)

lemma filter_args_apply: "k \<in> set Shop_init_args \<Longrightarrow> filter_args kw k = kw k"
  by (simp add: filter_args_def)

lemma default_currencies_id: "kw ''currencies'' \<noteq> None \<Longrightarrow> default_currencies kw = kw"
  by (auto simp: default_currencies_def)

lemma args_members:
  "''name'' \<in> set Shop_init_args" "''company'' \<in> set Shop_init_args"
  "''currencies'' \<in> set Shop_init_args" "''categories'' \<in> set Shop_init_args"
  "''offers'' \<in> set Shop_init_args" "''url'' \<in> set Shop_init_args"
  "''platform'' \<in> set Shop_init_args" "''version'' \<in> set Shop_init_args"
  "''agency'' \<in> set Shop_init_args" "''email'' \<in> set Shop_init_args"
  "''delivery_options'' \<in> set Shop_init_args" "''pickup_options'' \<in> set Shop_init_args"
  "''enable_auto_discounts'' \<in> set Shop_init_args" "''gifts'' \<in> set Shop_init_args"
  "''promos'' \<in> set Shop_init_args"
  by (simp_all add: Shop_init_args_def)

text \<open>A text field that \<^verbatim>\<open>create_xml\<close> and \<^verbatim>\<open>from_xml\<close> carry across: absent or not empty.\<close>

definition carried :: "string option \<Rightarrow> bool" where
  "carried v \<longleftrightarrow> v \<noteq> Some []"

lemma required_text_decoded:
  assumes "k \<in> set Shop_init_args" "kw k = (if truthy v then Some (VText v) else None)" "truthy v"
  shows "required_text (filter_args kw) k = Some v"
  using assms by (simp add: required_text_def filter_args_apply)

lemma optional_text_decoded:
  assumes "k \<in> set Shop_init_args" "kw k = (if truthy v then Some (VText v) else None)" "carried v"
  shows "optional_text (filter_args kw) k = Some v"
  using assms by (cases v) (simp_all add: optional_text_def filter_args_apply carried_def)

lemma required_list_decoded:
  assumes "k \<in> set Shop_init_args" "kw k = Some (VList l)"
  shows "required_list (filter_args kw) k = Some l"
  using assms by (simp add: required_list_def filter_args_apply)

lemma optional_list_decoded:
  assumes "k \<in> set Shop_init_args" "kw k = (if l \<noteq> [] then Some (VList l) else None)"
  shows "optional_list (filter_args kw) k = Some (if l \<noteq> [] then Some l else None)"
  using assms by (simp add: optional_list_def filter_args_apply)

lemma Shop_of_decoded_kwargs:
  assumes "truthy (name s)" "truthy (company s)" "carried (url s)" "carried (platform s)"
    "carried (version s)" "carried (agency s)" "carried (email s)"
    "carried (enable_auto_discounts' s)"
  shows "Shop_of_kwargs (filter_args (default_currencies (decoded_kwargs s cur cat dl pk off g p)))
    = Shop_init (name s) (company s) (map CurrencyObj cur) cat off (url s) (platform s)
        (version s) (agency s) (email s) (if dl \<noteq> [] then Some dl else None)
        (if pk \<noteq> [] then Some pk else None) (pyval_of_text (enable_auto_discounts' s))
        (if g \<noteq> [] then Some g else None) (if p \<noteq> [] then Some p else None)"
proof -
  let ?D = "decoded_kwargs s cur cat dl pk off g p"
  have d: "default_currencies ?D = ?D"
    by (rule default_currencies_id) (simp add: decoded_kwargs_lists)
  note t = decoded_kwargs_text [where s = s and cur = cur and cat = cat and dl = dl and pk = pk
      and off = off and g = g and p = p]
  have r: "required_text (filter_args ?D) ''name'' = Some (name s)"
    "required_text (filter_args ?D) ''company'' = Some (company s)"
    using assms(1,2) t(1,2)
    by (simp_all add: required_text_decoded args_members)
  have o: "optional_text (filter_args ?D) ''url'' = Some (url s)"
    "optional_text (filter_args ?D) ''platform'' = Some (platform s)"
    "optional_text (filter_args ?D) ''version'' = Some (version s)"
    "optional_text (filter_args ?D) ''agency'' = Some (agency s)"
    "optional_text (filter_args ?D) ''email'' = Some (email s)"
    using assms(3-7) t(3-7)
    by (simp_all add: optional_text_decoded args_members)
  have e: "optional_text (filter_args ?D) ''enable_auto_discounts'' = Some (enable_auto_discounts' s)"
    using assms(8) by (simp add: optional_text_decoded args_members decoded_kwargs_lists)
  have l: "required_list (filter_args ?D) ''currencies'' = Some cur"
    "required_list (filter_args ?D) ''categories'' = Some cat"
    "required_list (filter_args ?D) ''offers'' = Some off"
    by (simp_all add: required_list_decoded args_members decoded_kwargs_lists)
  have ol: "optional_list (filter_args ?D) ''delivery_options'' = Some (if dl \<noteq> [] then Some dl else None)"
    "optional_list (filter_args ?D) ''pickup_options'' = Some (if pk \<noteq> [] then Some pk else None)"
    "optional_list (filter_args ?D) ''gifts'' = Some (if g \<noteq> [] then Some g else None)"
    "optional_list (filter_args ?D) ''promos'' = Some (if p \<noteq> [] then Some p else None)"
    by (simp_all only: optional_list_decoded args_members decoded_kwargs_lists)
  show ?thesis
    unfolding d Shop_of_kwargs_def
    by (simp only: r o e l ol Option.bind.simps option.case)
qed

text \<open>
  A leaf object survives its own codec: decoding its element succeeds and gives an
  object with the same dictionary.
\<close>

definition roundtrips :: "('m, 'd) models \<Rightarrow> (xml \<Rightarrow> error + 'm) \<Rightarrow> 'm \<Rightarrow> bool" where
  "roundtrips M decode x =
     (case decode (to_xml M x) of Inl e \<Rightarrow> False | Inr y \<Rightarrow> to_dict M y = to_dict M x)"

definition leaves_roundtrip :: "('m, 'd) models \<Rightarrow> 'm shop \<Rightarrow> bool" where
  "leaves_roundtrip M s \<longleftrightarrow>
     list_all (roundtrips M (Currency_from_xml M)) [c. CurrencyObj c \<leftarrow> currencies s] \<and>
     list_all (roundtrips M (Category_from_xml M)) (categories s) \<and>
     list_all (roundtrips M (Option_from_xml M)) (delivery_options s) \<and>
     list_all (roundtrips M (Option_from_xml M)) (pickup_options s) \<and>
     list_all (roundtrips M (from_xml_offer M)) (offers s) \<and>
     list_all (roundtrips M (Gift_from_xml M)) (list_or_empty (gifts s)) \<and>
     list_all (roundtrips M (Promo_from_xml M)) (list_or_empty (promos s))"

text \<open>
  The text fields as \<^verbatim>\<open>create_xml\<close> and \<^verbatim>\<open>from_xml\<close> carry them across: the two
  required ones are not empty, the optional ones are absent or not empty.
\<close>

definition texts_carried :: "'m shop \<Rightarrow> bool" where
  "texts_carried s \<longleftrightarrow>
     truthy (name s) \<and> truthy (company s) \<and> carried (url s) \<and> carried (platform s) \<and>
     carried (version s) \<and> carried (agency s) \<and> carried (email s)"

lemma roundtrips_iff:
  "roundtrips M decode x \<longleftrightarrow> (\<exists>y. decode (to_xml M x) = Inr y \<and> to_dict M y = to_dict M x)"
  by (cases "decode (to_xml M x)") (simp_all add: roundtrips_def)

lemma decode_list:
  assumes "list_all (roundtrips M decode) xs"
  shows "\<exists>ys. from_xml_each decode (map (to_xml M) xs) = Inr ys
           \<and> map (to_dict M) ys = map (to_dict M) xs \<and> (ys = [] \<longleftrightarrow> xs = [])"
proof -
  have "\<forall>x \<in> set xs. \<exists>y. decode (to_xml M x) = Inr y \<and> to_dict M y = to_dict M x"
    using assms by (simp add: list_all_iff roundtrips_iff)
  from from_xml_each_roundtrip [OF this] obtain ys where
    ys: "from_xml_each decode (map (to_xml M) xs) = Inr ys" "map (to_dict M) ys = map (to_dict M) xs"
    by blast
  from ys(2) have "length ys = length xs" by (metis length_map)
  then have "ys = [] \<longleftrightarrow> xs = []" by auto
  with ys show ?thesis by blast
qed

lemma currencies_to_dict_Inr:
  "currencies_to_dict M cs = Inr ds \<Longrightarrow>
   cs = map CurrencyObj [c. CurrencyObj c \<leftarrow> cs] \<and> ds = map (to_dict M) [c. CurrencyObj c \<leftarrow> cs]"
  by (induction M cs arbitrary: ds rule: currencies_to_dict.induct)
     (auto split: sum.splits)

lemma currencies_to_dict_objects:
  "currencies_to_dict M (map CurrencyObj xs) = Inr (map (to_dict M) xs)"
  by (induction xs) simp_all

lemma normalized_token_stored:
  assumes "normalized_token v = Inr raw"
  shows "raw = None \<or> raw = Some ''true'' \<or> raw = Some ''false''"
  using assms by (auto simp: normalized_token_def split: sum.splits option.splits if_splits)

lemma normalized_token_again:
  assumes "raw = None \<or> raw = Some ''true'' \<or> raw = Some ''false''"
  shows "normalized_token (pyval_of_text raw) = Inr raw" "carried raw"
  using assms
  by (auto simp: normalized_token_def pyval_of_text_def boolish_def lower_tokens
      TRUE_TOKENS_def FALSE_TOKENS_def carried_def)

lemma list_or_empty_if: "list_or_empty (if l \<noteq> [] then Some l else None) = l"
  by (simp add: list_or_empty_def)

lemma Shop_roundtrip:
  assumes e: "enable_auto_discounts' s = None \<or> enable_auto_discounts' s = Some ''true''
              \<or> enable_auto_discounts' s = Some ''false''"
    and t: "texts_carried s"
    and l: "leaves_roundtrip M s"
    and d: "Shop_to_dict M s = Inr d"
  shows "\<exists>s'. Shop_from_xml M (Shop_create_xml M s) = Inr s' \<and> Shop_to_dict M s' = Inr d"
proof -
  let ?objs = "[c. CurrencyObj c \<leftarrow> currencies s]"
  obtain dc where dc: "currencies_to_dict M (currencies s) = Inr dc"
    using d by (auto simp: Shop_to_dict_def Shop_create_dict_def split: sum.splits)
  have dc': "dc = map (to_dict M) ?objs"
    using currencies_to_dict_Inr [OF dc] by simp
  from l have l': "list_all (roundtrips M (Currency_from_xml M)) ?objs"
    "list_all (roundtrips M (Category_from_xml M)) (categories s)"
    "list_all (roundtrips M (Option_from_xml M)) (delivery_options s)"
    "list_all (roundtrips M (Option_from_xml M)) (pickup_options s)"
    "list_all (roundtrips M (from_xml_offer M)) (offers s)"
    "list_all (roundtrips M (Gift_from_xml M)) (list_or_empty (gifts s))"
    "list_all (roundtrips M (Promo_from_xml M)) (list_or_empty (promos s))"
    unfolding leaves_roundtrip_def by blast+
  obtain cur where cur: "from_xml_each (Currency_from_xml M) (currencies_to_xml M (currencies s)) = Inr cur"
      "map (to_dict M) cur = map (to_dict M) ?objs"
    using decode_list [OF l'(1)] unfolding currencies_to_xml_eq by blast
  obtain cat where cat: "from_xml_each (Category_from_xml M) (map (to_xml M) (categories s)) = Inr cat"
      "map (to_dict M) cat = map (to_dict M) (categories s)"
    using decode_list [OF l'(2)] by blast
  obtain dl where dl: "from_xml_each (Option_from_xml M) (map (to_xml M) (delivery_options s)) = Inr dl"
      "map (to_dict M) dl = map (to_dict M) (delivery_options s)" "dl = [] \<longleftrightarrow> delivery_options s = []"
    using decode_list [OF l'(3)] by blast
  obtain pk where pk: "from_xml_each (Option_from_xml M) (map (to_xml M) (pickup_options s)) = Inr pk"
      "map (to_dict M) pk = map (to_dict M) (pickup_options s)" "pk = [] \<longleftrightarrow> pickup_options s = []"
    using decode_list [OF l'(4)] by blast
  obtain off where off: "from_xml_each (from_xml_offer M) (map (to_xml M) (offers s)) = Inr off"
      "map (to_dict M) off = map (to_dict M) (offers s)"
    using decode_list [OF l'(5)] by blast
  obtain g where g: "from_xml_each (Gift_from_xml M) (map (to_xml M) (list_or_empty (gifts s))) = Inr g"
      "map (to_dict M) g = map (to_dict M) (list_or_empty (gifts s))"
      "g = [] \<longleftrightarrow> list_or_empty (gifts s) = []"
    using decode_list [OF l'(6)] by blast
  obtain p where p: "from_xml_each (Promo_from_xml M) (map (to_xml M) (list_or_empty (promos s))) = Inr p"
      "map (to_dict M) p = map (to_dict M) (list_or_empty (promos s))"
      "p = [] \<longleftrightarrow> list_or_empty (promos s) = []"
    using decode_list [OF l'(7)] by blast
  let ?s' = "\<lparr>name = name s, company = company s, url' = url s, platform = platform s,
     version = version s, agency = agency s, email = email s,
     currencies = map CurrencyObj cur, categories = cat,
     delivery_options' = (if dl \<noteq> [] then Some dl else None),
     pickup_options' = (if pk \<noteq> [] then Some pk else None),
     enable_auto_discounts' = enable_auto_discounts' s, offers = off,
     gifts = (if g \<noteq> [] then Some g else None),
     promos = (if p \<noteq> [] then Some p else None)\<rparr>"
  have k: "Shop_from_xml_kwargs M (Shop_create_xml M s)
             = Inr (filter_args (default_currencies (decoded_kwargs s cur cat dl pk off g p)))"
    unfolding Shop_from_xml_kwargs_def
    using from_xml_loop_create_xml [OF cur(1) cat(1) dl(1) pk(1) off(1) g(1) p(1) dl(3) pk(3) g(3) p(3)]
    by simp
  have i: "Shop_from_xml M (Shop_create_xml M s) = Inr ?s'"
    unfolding Shop_from_xml_def k
    using t normalized_token_again [OF e]
    by (simp add: Shop_of_decoded_kwargs texts_carried_def Shop_init_def)
  have "Shop_to_dict M ?s' = Inr d"
    using d dc cur(2) cat(2) dl(2) pk(2) off(2) g(2) p(2)
    unfolding Shop_to_dict_def Shop_create_dict_def dc'
    by (simp add: currencies_to_dict_objects url_def delivery_options_def pickup_options_def
        enable_auto_discounts_def list_or_empty_if [unfolded list_or_empty_def] list_or_empty_def)
  with i show ?thesis by blast
qed

lemma Shop_init_slot:
  assumes "Shop_init n c cu ca off u p v a e dl pk ead g pr = Inr s"
  shows "enable_auto_discounts' s = None \<or> enable_auto_discounts' s = Some ''true''
         \<or> enable_auto_discounts' s = Some ''false''"
proof -
  from assms obtain raw where "normalized_token ead = Inr raw" "enable_auto_discounts' s = raw"
    by (auto simp: Shop_init_def split: sum.splits)
  then show ?thesis using normalized_token_stored by metis
qed

lemma Feed_date_same: "date' f = date' g \<Longrightarrow> Feed_date f = Feed_date g"
  unfolding Feed_date_def by (simp only:)

text \<open>
  Claim C1, as amended.  Take a Feed built by the constructors whose Shop has a name
  and a company that are not empty, whose optional text fields are absent or not
  empty, and whose currencies, categories, options, offers, gifts and promos each
  survive their own codec.  If the Feed has a dictionary, decoding the element that
  \<^verbatim>\<open>create_xml\<close> builds succeeds, whatever the clock shows, and the decoded Feed has
  the same dictionary.
\<close>

theorem feed_roundtrip:
  assumes "Shop_init n c cu ca off u p v a e dl pk ead g pr = Inr s"
    and "Feed_init now s dt = Inr f" and "valid_datetime now"
    and "texts_carried s"
    and "leaves_roundtrip M s"
    and "Feed_to_dict M f = Inr d"
  shows "\<exists>f'. Feed_from_xml M now' (Feed_create_xml M f) = Inr f' \<and> Feed_to_dict M f' = Inr d"
proof -
  from assms(2) obtain ds where ds: "date_to_store now dt = Inr ds" "f = \<lparr>shop = s, date' = ds\<rparr>"
    by (auto simp: Feed_init_def split: sum.splits)
  from date_to_store_valid [OF ds(1) assms(3)] obtain t where
    t: "valid_datetime t" "ds = strftime t DATE_FORMAT" by blast
  from assms(6) obtain sd where sd: "Shop_to_dict M s = Inr sd"
    using ds(2) by (auto simp: Feed_to_dict_def Feed_create_dict_def split: sum.splits)
  from Shop_roundtrip [OF Shop_init_slot [OF assms(1)] assms(4,5) sd] obtain s' where
    s': "Shop_from_xml M (Shop_create_xml M s) = Inr s'" "Shop_to_dict M s' = Inr sd"
    by blast
  have a: "attrib_get (Feed_create_xml M f) ''date'' = Some ds"
    using attrib_get_Feed_create_xml [of M f] ds(2) by simp
  have c: "children (Feed_create_xml M f) = [Shop_create_xml M s]"
    using ds(2) by (simp add: Feed_create_xml_def append_child_def XMLElement_def)
  have "date_to_store now' (Some ds) = Inr ds"
    using date_to_store_primary [of ds t now'] strptime_strftime [OF t(1)] t(2) by simp
  then have i: "Feed_from_xml M now' (Feed_create_xml M f) = Inr \<lparr>shop = s', date' = ds\<rparr>"
    by (simp add: Feed_from_xml_def c a s'(1) Feed_init_def)
  have fd: "Feed_date \<lparr>shop = s', date' = ds\<rparr> = Feed_date f"
    by (rule Feed_date_same) (simp add: ds(2))
  have sf: "shop f = s" by (simp add: ds(2))
  have "Feed_to_dict M \<lparr>shop = s', date' = ds\<rparr> = Inr d"
    using assms(6) unfolding Feed_to_dict_def Feed_create_dict_def fd sf
    by (simp add: sd s'(2))
  with i show ?thesis by blast
qed

text \<open>A shop whose \<^verbatim>\<open>url\<close> is the empty string, and the feed of it.\<close>

definition empty_url_shop :: "leaf shop" where
  "empty_url_shop = unit_shop\<lparr>url' := Some ''''\<rparr>"

definition empty_url_feed :: "leaf feed" where
  "empty_url_feed = \<lparr>shop = empty_url_shop, date' = ''2026-11-03 09:30:15''\<rparr>"

definition decoded_feed :: "leaf feed" where
  "decoded_feed = \<lparr>shop = unit_shop, date' = ''2026-11-03 09:30:15''\<rparr>"

text \<open>
  Claim C1 as stated fails for a Shop whose \<^verbatim>\<open>url\<close> is the empty string: the
  constructors accept it, \<^verbatim>\<open>create_xml\<close> writes no \<^verbatim>\<open>url\<close> element because the value
  is not truthy, the decoded Shop has \<^verbatim>\<open>url = None\<close>, and the two dictionaries differ
  at \<^verbatim>\<open>url\<close>.
\<close>

theorem feed_roundtrip_counterexample:
  "Shop_init (Some ''n'') (Some ''c'') [] [] [] (Some '''') None None None None None None PNone
       None None = Inr empty_url_shop
   \<and> Feed_init clock empty_url_shop None = Inr empty_url_feed
   \<and> Feed_from_xml leaf_models clock (Feed_create_xml leaf_models empty_url_feed) = Inr decoded_feed
   \<and> Feed_to_dict leaf_models decoded_feed \<noteq> Feed_to_dict leaf_models empty_url_feed"
proof -
  have 1: "Shop_init (Some ''n'') (Some ''c'') [] [] [] (Some '''') None None None None None None PNone
       None None = Inr empty_url_shop"
    by (simp add: Shop_init_def normalized_token_def boolish_def empty_url_shop_def unit_shop_def)
  have 2: "Feed_init clock empty_url_shop None = Inr empty_url_feed"
    by code_simp
  have x: "Shop_create_xml leaf_models empty_url_shop = Element ''shop'' [] None
     [Element ''name'' [] (Some ''n'') [], Element ''company'' [] (Some ''c'') [],
      Element ''currencies'' [] None [], Element ''categories'' [] None [],
      Element ''offers'' [] None []]"
    by code_simp
  have s: "Shop_from_xml leaf_models (Element ''shop'' [] None
     [Element ''name'' [] (Some ''n'') [], Element ''company'' [] (Some ''c'') [],
      Element ''currencies'' [] None [], Element ''categories'' [] None [],
      Element ''offers'' [] None []]) = Inr unit_shop"
    by (simp add: Shop_from_xml_def Shop_from_xml_kwargs_def from_xml_child_def
      leaf_models_def filter_args_def default_currencies_def Shop_init_args_def
      Shop_of_kwargs_def required_text_def required_list_def optional_text_def optional_list_def
      Shop_init_def normalized_token_def boolish_def pyval_of_text_def unit_shop_def)
  have p: "strptime ''2026-11-03 09:30:15'' DATE_FORMAT = Inr clock"
    by code_simp
  have r: "strftime clock DATE_FORMAT = ''2026-11-03 09:30:15''"
    by code_simp
  have 3: "Feed_from_xml leaf_models clock (Feed_create_xml leaf_models empty_url_feed) = Inr decoded_feed"
    using date_to_store_primary [OF p, of clock]
    by (simp add: Feed_from_xml_def Feed_create_xml_def append_child_def XMLElement_def
        empty_url_feed_def x s attrib_get_def Feed_init_def r decoded_feed_def)
  have 4: "Feed_to_dict leaf_models decoded_feed \<noteq> Feed_to_dict leaf_models empty_url_feed"
    by (simp add: Feed_to_dict_def Feed_create_dict_def Shop_to_dict_def Shop_create_dict_def
        decoded_feed_def empty_url_feed_def empty_url_shop_def unit_shop_def Feed_date_def p
        url_def)
  show ?thesis using 1 2 3 4 by blast
qed

text \<open>A Feed with a member in several collections and its date in the fallback format.\<close>

definition rich_shop :: "leaf shop" where
  "rich_shop = unit_shop
     \<lparr>url' := Some ''http://shop.example'',
      currencies := [CurrencyObj (Currency ''RUR'' ''1'' None)],
      categories := [Category ''1'' (Some ''Books'') None],
      delivery_options' := Some [DeliveryOption ''300'' ''1'' (Some ''18'')],
      enable_auto_discounts' := Some ''true'',
      offers := [Offer BookOffer book_offer],
      gifts := Some [Gift (Element ''gift'' [(''id'', ''g1'')] None [])]\<rparr>"

definition rich_feed :: "leaf feed" where
  "rich_feed = \<lparr>shop = rich_shop, date' = ''2020-01-05 10:07:00''\<rparr>"

theorem feed_roundtrip_witness:
  "Shop_init (Some ''n'') (Some ''c'') [CurrencyObj (Currency ''RUR'' ''1'' None)]
       [Category ''1'' (Some ''Books'') None] [Offer BookOffer book_offer]
       (Some ''http://shop.example'') None None None None
       (Some [DeliveryOption ''300'' ''1'' (Some ''18'')]) None (PStr ''yes'')
       (Some [Gift (Element ''gift'' [(''id'', ''g1'')] None [])]) None = Inr rich_shop
   \<and> Feed_init clock rich_shop (Some ''2020-01-05 10:07'') = Inr rich_feed
   \<and> valid_datetime clock
   \<and> texts_carried rich_shop
   \<and> leaves_roundtrip leaf_models rich_shop
   \<and> (\<exists>d f'. Feed_to_dict leaf_models rich_feed = Inr d
          \<and> Feed_from_xml leaf_models clock (Feed_create_xml leaf_models rich_feed) = Inr f'
          \<and> Feed_to_dict leaf_models f' = Inr d)"
proof -
  have 1: "Shop_init (Some ''n'') (Some ''c'') [CurrencyObj (Currency ''RUR'' ''1'' None)]
       [Category ''1'' (Some ''Books'') None] [Offer BookOffer book_offer]
       (Some ''http://shop.example'') None None None None
       (Some [DeliveryOption ''300'' ''1'' (Some ''18'')]) None (PStr ''yes'')
       (Some [Gift (Element ''gift'' [(''id'', ''g1'')] None [])]) None = Inr rich_shop"
    by (simp add: Shop_init_def normalized_token_def boolish_def lower_tokens TRUE_TOKENS_def
        rich_shop_def unit_shop_def)
  have h: "strptime ''2020-01-05 10:07'' ALT_DATE_FORMAT
     = Inr \<lparr>year = 2020, month = 1, day = 5, hour = 10, minute = 7, second = 0\<rparr>"
    by code_simp
  have r: "strftime \<lparr>year = 2020, month = 1, day = 5, hour = 10, minute = 7, second = 0\<rparr>
     DATE_FORMAT = ''2020-01-05 10:07:00''"
    by code_simp
  have 2: "Feed_init clock rich_shop (Some ''2020-01-05 10:07'') = Inr rich_feed"
    unfolding Feed_init_def date_to_store_fallback [OF h] r by (simp add: rich_feed_def)
  have 3: "valid_datetime clock"
    by code_simp
  have 4: "texts_carried rich_shop"
    by (simp add: texts_carried_def carried_def rich_shop_def unit_shop_def url_def)
  have 5: "leaves_roundtrip leaf_models rich_shop"
    by (simp add: leaves_roundtrip_def roundtrips_def rich_shop_def unit_shop_def leaf_models_def
        leaf_currency_from_xml_def leaf_category_from_xml_def leaf_option_from_xml_def
        from_xml_offer_def book_offer_def attrib_get_def optional_attrib_def
        delivery_options_def pickup_options_def list_or_empty_def)
  have p: "strptime ''2020-01-05 10:07:00'' DATE_FORMAT
     = Inr \<lparr>year = 2020, month = 1, day = 5, hour = 10, minute = 7, second = 0\<rparr>"
    by code_simp
  obtain d where 6: "Feed_to_dict leaf_models rich_feed = Inr d"
    by (simp add: Feed_to_dict_def Feed_create_dict_def Shop_to_dict_def Shop_create_dict_def
        rich_feed_def rich_shop_def unit_shop_def Feed_date_def p)
  from feed_roundtrip [OF 1 2 3 4 5 6, of clock] 1 2 3 4 5 6 show ?thesis
    by blast
qed

end
